theory Spec2Isabelle
  imports Complex_Main "HOL-Library.AList"
begin

section \<open>JavaScript values\<close>

text \<open>
  The item routes (\<^verbatim>\<open>apps/backend/src/routes/items.ts\<close>) and the response envelope
  (\<^verbatim>\<open>lib/utils\<close>) are embedded over a small model of the JavaScript values they
  handle. A JavaScript string is its sequence of UTF-16 code units, and so is a
  property name; \<open>js\<close> turns an ASCII literal into such a string.
\<close>

type_synonym jsstring = "nat list"

definition js :: "string \<Rightarrow> jsstring" where
  "js s = map of_char s"

lemma js_eq_iff [simp]: "js a = js b \<longleftrightarrow> a = b"
proof -
  have "inj (of_char :: char \<Rightarrow> nat)"
    by (rule injI) simp
  then show ?thesis
    by (simp add: js_def inj_map_eq_map)
qed

text \<open>
  A number is an IEEE binary64 value: not-a-number, an infinity, or a finite value
  kept as the rational it denotes (the sign of zero is not kept).
\<close>

datatype jsnum = NaN | PInf | NInf | Fin rat

datatype jsval =
    JUndefined
  | JNull
  | JBool bool
  | JNum jsnum
  | JStr jsstring
  | JDate jsval
  | JArr "jsval list"
  | JObj "(jsstring \<times> jsval) list"

text \<open>\<open>JDate v\<close> is the object \<^verbatim>\<open>new Date(v)\<close>.\<close>

subsection \<open>Property access and assignment\<close>

definition has_key :: "jsval \<Rightarrow> jsstring \<Rightarrow> bool" where
  "has_key obj k = (case obj of JObj kvs \<Rightarrow> k \<in> set (map fst kvs) | _ \<Rightarrow> False)"

definition get :: "jsval \<Rightarrow> jsstring \<Rightarrow> jsval" where
  "get obj k = (case obj of
       JObj kvs \<Rightarrow> (case map_of kvs k of Some v \<Rightarrow> v | None \<Rightarrow> JUndefined)
     | _ \<Rightarrow> JUndefined)"

definition obj_set :: "jsval \<Rightarrow> jsstring \<Rightarrow> jsval \<Rightarrow> jsval" where
  "obj_set obj k v = (case obj of JObj kvs \<Rightarrow> JObj (AList.update k v kvs) | _ \<Rightarrow> obj)"

definition keys_of :: "jsval \<Rightarrow> jsstring set" where
  "keys_of obj = (case obj of JObj kvs \<Rightarrow> set (map fst kvs) | _ \<Rightarrow> {})"

subsection \<open>Truthiness, \<open>||\<close> and \<open>??\<close>\<close>

definition truthy :: "jsval \<Rightarrow> bool" where
  "truthy v = (case v of
       JUndefined \<Rightarrow> False
     | JNull \<Rightarrow> False
     | JBool b \<Rightarrow> b
     | JNum n \<Rightarrow> n \<noteq> NaN \<and> n \<noteq> Fin 0
     | JStr s \<Rightarrow> s \<noteq> []
     | _ \<Rightarrow> True)"

definition js_or :: "jsval \<Rightarrow> jsval \<Rightarrow> jsval" where
  "js_or a b = (if truthy a then a else b)"

definition nullish :: "jsval \<Rightarrow> jsval \<Rightarrow> jsval" where
  "nullish a b = (if a = JNull \<or> a = JUndefined then b else a)"

subsection \<open>\<open>String.prototype.trim\<close>\<close>

text \<open>White space and line terminators of ECMAScript, as code units.\<close>

definition isWhiteSpace :: "nat \<Rightarrow> bool" where
  "isWhiteSpace c \<longleftrightarrow>
     c \<in> {0x09, 0x0A, 0x0B, 0x0C, 0x0D, 0x20, 0xA0, 0x1680, 0x2028, 0x2029,
          0x202F, 0x205F, 0x3000, 0xFEFF} \<or> (0x2000 \<le> c \<and> c \<le> 0x200A)"

definition trim :: "jsstring \<Rightarrow> jsstring" where
  "trim s = rev (dropWhile isWhiteSpace (rev (dropWhile isWhiteSpace s)))"

subsection \<open>\<open>Number(string)\<close>\<close>

text \<open>
  \<open>Number\<close> applied to a string: the string is trimmed; the empty string is 0; a
  radix literal (\<^verbatim>\<open>0x\<close>, \<^verbatim>\<open>0o\<close>, \<^verbatim>\<open>0b\<close>) has no sign; a decimal literal has an
  optional sign, digits with an optional fraction, and an optional exponent;
  everything else is NaN. The mathematical value is rounded to binary64, to nearest
  with ties to even.
\<close>

definition isDigit :: "nat \<Rightarrow> bool" where
  "isDigit c \<longleftrightarrow> 0x30 \<le> c \<and> c \<le> 0x39"

function bitLength :: "int \<Rightarrow> int" where
  "bitLength n = (if n \<le> 0 then 0 else 1 + bitLength (n div 2))"
  by pat_completeness auto
termination
  by (relation "measure nat") auto

declare bitLength.simps [simp del]

definition pow2 :: "int \<Rightarrow> rat" where
  "pow2 e = (if 0 \<le> e then 2 ^ nat e else 1 / 2 ^ nat (- e))"

definition binade :: "rat \<Rightarrow> int" where
  "binade x = (let e = (if 1 \<le> x then bitLength \<lfloor>x\<rfloor> - 1 else 1 - bitLength \<lfloor>1 / x\<rfloor>)
               in if pow2 e \<le> x then e else e - 1)"

definition roundHalfEven :: "rat \<Rightarrow> int" where
  "roundHalfEven q = (let f = \<lfloor>q\<rfloor>; d = q - of_int f
     in if d < 1 / 2 then f else if 1 / 2 < d then f + 1 else if even f then f else f + 1)"

definition toDoublePos :: "rat \<Rightarrow> jsnum" where
  "toDoublePos x = (let e = max (binade x) (- 1022);
                        ulp = pow2 (e - 52);
                        y = of_int (roundHalfEven (x / ulp)) * ulp
                    in if pow2 1024 \<le> y then PInf else Fin y)"

definition negate :: "jsnum \<Rightarrow> jsnum" where
  "negate n = (case n of NaN \<Rightarrow> NaN | PInf \<Rightarrow> NInf | NInf \<Rightarrow> PInf | Fin r \<Rightarrow> Fin (- r))"

definition toDouble :: "rat \<Rightarrow> jsnum" where
  "toDouble x = (if x = 0 then Fin 0
                 else if 0 < x then toDoublePos x else negate (toDoublePos (- x)))"

definition digitValue :: "nat \<Rightarrow> nat" where
  "digitValue c = (if isDigit c then c - 0x30
                   else if 0x61 \<le> c \<and> c \<le> 0x66 then c - 0x61 + 10
                   else c - 0x41 + 10)"

definition digitsValue :: "nat \<Rightarrow> jsstring \<Rightarrow> int" where
  "digitsValue base ds = foldl (\<lambda>acc c. acc * int base + int (digitValue c)) 0 ds"

definition isRadixDigit :: "nat \<Rightarrow> nat \<Rightarrow> bool" where
  "isRadixDigit base c \<longleftrightarrow>
     (if base = 16 then isDigit c \<or> (0x61 \<le> c \<and> c \<le> 0x66) \<or> (0x41 \<le> c \<and> c \<le> 0x46)
      else 0x30 \<le> c \<and> c < 0x30 + base)"

definition radixPrefix :: "jsstring \<Rightarrow> (nat \<times> jsstring) option" where
  "radixPrefix t = (case t of
       z # x # ds \<Rightarrow>
         if z \<noteq> 0x30 then None
         else if x = 0x78 \<or> x = 0x58 then Some (16, ds)
         else if x = 0x6F \<or> x = 0x4F then Some (8, ds)
         else if x = 0x62 \<or> x = 0x42 then Some (2, ds)
         else None
     | _ \<Rightarrow> None)"

definition splitSign :: "jsstring \<Rightarrow> bool \<times> jsstring" where
  "splitSign t = (case t of
       c # rest \<Rightarrow>
         if c = 0x2D then (True, rest) else if c = 0x2B then (False, rest) else (False, t)
     | [] \<Rightarrow> (False, t))"

definition exponentPart :: "jsstring \<Rightarrow> int option" where
  "exponentPart t = (case t of
       [] \<Rightarrow> Some 0
     | c # rest \<Rightarrow>
         if c = 0x65 \<or> c = 0x45 then
           (let (neg, ds) = splitSign rest
            in if ds \<noteq> [] \<and> list_all isDigit ds
               then Some (if neg then - digitsValue 10 ds else digitsValue 10 ds)
               else None)
         else None)"

definition pow10 :: "int \<Rightarrow> rat" where
  "pow10 e = (if 0 \<le> e then 10 ^ nat e else 1 / 10 ^ nat (- e))"

definition unsignedDecimal :: "jsstring \<Rightarrow> jsnum" where
  "unsignedDecimal t =
     (if t = js ''Infinity'' then PInf
      else let ip = takeWhile isDigit t; r1 = dropWhile isDigit t;
               hasDot = (r1 \<noteq> [] \<and> hd r1 = 0x2E);
               fp = (if hasDot then takeWhile isDigit (tl r1) else []);
               r2 = (if hasDot then dropWhile isDigit (tl r1) else r1)
           in if ip = [] \<and> fp = [] then NaN
              else case exponentPart r2 of
                     None \<Rightarrow> NaN
                   | Some e \<Rightarrow>
                       toDouble ((of_int (digitsValue 10 ip)
                                  + of_int (digitsValue 10 fp) / 10 ^ length fp) * pow10 e))"

definition Number :: "jsstring \<Rightarrow> jsnum" where
  "Number s =
     (let t = trim s
      in if t = [] then Fin 0
         else case radixPrefix t of
                Some (base, ds) \<Rightarrow>
                  if ds \<noteq> [] \<and> list_all (isRadixDigit base) ds
                  then toDouble (of_int (digitsValue base ds)) else NaN
              | None \<Rightarrow>
                  (let (neg, u) = splitSign t
                   in if neg then negate (unsignedDecimal u) else unsignedDecimal u))"

definition isNaN :: "jsnum \<Rightarrow> bool" where
  "isNaN n \<longleftrightarrow> n = NaN"

text \<open>The comparison \<^verbatim>\<open>n <= 0\<close>; it is false for NaN.\<close>

definition le_zero :: "jsnum \<Rightarrow> bool" where
  "le_zero n = (case n of NaN \<Rightarrow> False | PInf \<Rightarrow> False | NInf \<Rightarrow> True | Fin r \<Rightarrow> r \<le> 0)"


section \<open>Control flow and effects\<close>

text \<open>
  An expression either returns a value or throws. The persistence client raises
  \<open>PrismaClientKnownRequestError\<close> with an error code, or any other exception; the
  platform raises \<open>TypeError\<close> and \<open>RangeError\<close>.
\<close>

datatype exn =
    PrismaClientKnownRequestError jsstring
  | TypeError
  | RangeError
  | OtherError jsval

datatype 'a outcome = Returns 'a | Throws exn

definition bind :: "'a outcome \<Rightarrow> ('a \<Rightarrow> 'b outcome) \<Rightarrow> 'b outcome" where
  "bind m f = (case m of Returns x \<Rightarrow> f x | Throws e \<Rightarrow> Throws e)"

text \<open>
  The calls a handler makes on the persistence client \<^verbatim>\<open>prisma.item\<close>. The
  \<^verbatim>\<open>include\<close> and \<^verbatim>\<open>orderBy\<close> arguments are the same constants at every call and
  are not written.
\<close>

datatype db_call =
    ItemFindMany
  | ItemCreate jsval
  | ItemUpdate jsnum jsval
  | ItemDelete jsnum

type_synonym client = "db_call \<Rightarrow> jsval outcome"

text \<open>A handler's run: the persistence calls it made, in order, and how it ended.\<close>

type_synonym 'a io = "db_call list \<times> 'a outcome"

definition unit_io :: "'a \<Rightarrow> 'a io" where
  "unit_io x = ([], Returns x)"

definition lift :: "'a outcome \<Rightarrow> 'a io" where
  "lift m = ([], m)"

definition await :: "client \<Rightarrow> db_call \<Rightarrow> jsval io" where
  "await prisma c = ([c], prisma c)"

definition bind_io :: "'a io \<Rightarrow> ('a \<Rightarrow> 'b io) \<Rightarrow> 'b io" where
  "bind_io m f = (case m of
       (cs, Returns x) \<Rightarrow> (case f x of (cs', r) \<Rightarrow> (cs @ cs', r))
     | (cs, Throws e) \<Rightarrow> (cs, Throws e))"

definition try_catch :: "'a io \<Rightarrow> (exn \<Rightarrow> 'a io) \<Rightarrow> 'a io" where
  "try_catch m handler = (case m of
       (cs, Returns x) \<Rightarrow> (cs, Returns x)
     | (cs, Throws e) \<Rightarrow> (case handler e of (cs', r) \<Rightarrow> (cs @ cs', r)))"

definition map_io :: "('a \<Rightarrow> 'b) \<Rightarrow> 'a io \<Rightarrow> 'b io" where
  "map_io f m = (case m of
       (cs, Returns x) \<Rightarrow> (cs, Returns (f x))
     | (cs, Throws e) \<Rightarrow> (cs, Throws e))"

subsection \<open>Method calls on values\<close>

text \<open>\<^verbatim>\<open>v.trim()\<close> and \<^verbatim>\<open>v?.trim()\<close>: only a string has the method.\<close>

definition trim_call :: "jsval \<Rightarrow> jsval outcome" where
  "trim_call v = (case v of JStr s \<Rightarrow> Returns (JStr (trim s)) | _ \<Rightarrow> Throws TypeError)"

definition opt_trim :: "jsval \<Rightarrow> jsval outcome" where
  "opt_trim v = (if v = JNull \<or> v = JUndefined then Returns JUndefined else trim_call v)"

section \<open>Response envelope\<close>

text \<open>
  \<open>Response body status\<close> is the response that \<^verbatim>\<open>Response.json(body, { status })\<close>
  constructs: its body is the JSON text of \<open>body\<close>. The constructor converts the
  status to an unsigned 16-bit integer, throws a \<open>RangeError\<close> when that is outside
  200 to 599, and a \<open>TypeError\<close> when it is a status that allows no body.
\<close>

datatype response = Response (body_of: jsval) (status_of: nat)

definition toUint16 :: "jsnum \<Rightarrow> nat" where
  "toUint16 n = (case n of
       Fin r \<Rightarrow> nat ((if 0 \<le> r then \<lfloor>r\<rfloor> else - \<lfloor>- r\<rfloor>) mod 65536)
     | _ \<Rightarrow> 0)"

definition Response_json :: "jsval \<Rightarrow> jsnum \<Rightarrow> response outcome" where
  "Response_json body status =
     (let s = toUint16 status
      in if s < 200 \<or> 599 < s then Throws RangeError
         else if s = 204 \<or> s = 205 \<or> s = 304 then Throws TypeError
         else Returns (Response body s))"

text \<open>A missing status argument takes the parameter's default.\<close>

definition successResponse :: "jsval \<Rightarrow> jsnum option \<Rightarrow> response outcome" where
  "successResponse data status =
     Response_json (JObj [(js ''success'', JBool True), (js ''data'', data)])
       (case status of None \<Rightarrow> Fin 200 | Some s \<Rightarrow> s)"

definition errorResponse :: "jsstring \<Rightarrow> jsnum option \<Rightarrow> response outcome" where
  "errorResponse message status =
     Response_json (JObj [(js ''success'', JBool False), (js ''error'', JStr message)])
       (case status of None \<Rightarrow> Fin 500 | Some s \<Rightarrow> s)"

section \<open>Message literals\<close>

text \<open>
  The message literals of \<^verbatim>\<open>items.ts\<close> are Chinese text; each is given by its
  code units, with its meaning in English.
\<close>

definition msg_name_empty :: jsstring where
  \<comment> \<open>the name must not be empty\<close>
  "msg_name_empty = [0x540D, 0x79F0, 0x4E0D, 0x80FD, 0x4E3A, 0x7A7A]"

definition msg_quantity_format :: jsstring where
  \<comment> \<open>invalid quantity format, at most 3 decimal places\<close>
  "msg_quantity_format = [0x6570, 0x91CF, 0x683C, 0x5F0F, 0x65E0, 0x6548, 0xFF0C, 0x6700,
     0x591A, 0x0033, 0x4F4D, 0x5C0F, 0x6570]"

definition msg_used_quantity_format :: jsstring where
  \<comment> \<open>invalid used-quantity format, at most 3 decimal places\<close>
  "msg_used_quantity_format = [0x5DF2, 0x4F7F, 0x7528, 0x91CF, 0x683C, 0x5F0F, 0x65E0, 0x6548,
     0xFF0C, 0x6700, 0x591A, 0x0033, 0x4F4D, 0x5C0F, 0x6570]"

definition msg_production_date_format :: jsstring where
  \<comment> \<open>the production date must be in ISO 8601 format\<close>
  "msg_production_date_format = [0x751F, 0x4EA7, 0x65E5, 0x671F, 0x5FC5, 0x987B, 0x662F, 0x0020,
     0x0049, 0x0053, 0x004F, 0x0020, 0x0038, 0x0036, 0x0030, 0x0031, 0x0020, 0x683C, 0x5F0F]"

definition msg_expiry_date_format :: jsstring where
  \<comment> \<open>the expiry date must be in ISO 8601 format\<close>
  "msg_expiry_date_format = [0x8FC7, 0x671F, 0x65E5, 0x671F, 0x5FC5, 0x987B, 0x662F, 0x0020,
     0x0049, 0x0053, 0x004F, 0x0020, 0x0038, 0x0036, 0x0030, 0x0031, 0x0020, 0x683C, 0x5F0F]"

definition msg_price_format :: jsstring where
  \<comment> \<open>invalid price format, at most 2 decimal places\<close>
  "msg_price_format = [0x4EF7, 0x683C, 0x683C, 0x5F0F, 0x65E0, 0x6548, 0xFF0C, 0x6700, 0x591A,
     0x0032, 0x4F4D, 0x5C0F, 0x6570]"

definition msg_list_failed :: jsstring where
  \<comment> \<open>fetching the item list failed\<close>
  "msg_list_failed = [0x83B7, 0x53D6, 0x7269, 0x54C1, 0x5217, 0x8868, 0x5931, 0x8D25]"

definition msg_create_failed :: jsstring where
  \<comment> \<open>creating the item failed\<close>
  "msg_create_failed = [0x521B, 0x5EFA, 0x7269, 0x54C1, 0x5931, 0x8D25]"

definition msg_invalid_id :: jsstring where
  \<comment> \<open>invalid item ID\<close>
  "msg_invalid_id = [0x65E0, 0x6548, 0x7684, 0x7269, 0x54C1, 0x0020, 0x0049, 0x0044]"

definition msg_not_found :: jsstring where
  \<comment> \<open>item not found\<close>
  "msg_not_found = [0x7269, 0x54C1, 0x672A, 0x627E, 0x5230]"

definition msg_update_failed :: jsstring where
  \<comment> \<open>updating the item failed\<close>
  "msg_update_failed = [0x66F4, 0x65B0, 0x7269, 0x54C1, 0x5931, 0x8D25]"

definition msg_deleted :: jsstring where
  \<comment> \<open>the item was deleted\<close>
  "msg_deleted = [0x7269, 0x54C1, 0x5DF2, 0x6210, 0x529F, 0x5220, 0x9664]"

definition msg_delete_failed :: jsstring where
  \<comment> \<open>deleting the item failed\<close>
  "msg_delete_failed = [0x5220, 0x9664, 0x7269, 0x54C1, 0x5931, 0x8D25]"

section \<open>Validation schemas\<close>

text \<open>
  A schema of the validation library maps an input value to the parsed value or to
  a non-empty list of issues. An issue carries the path of the offending value and
  its message: the one given in the source, or the library's own. The schemas
  behave as in version 4 of the library.
\<close>

datatype path_elem = Key jsstring | Index nat

datatype issue_message = Custom jsstring | Builtin

datatype issue = Issue (path_of: "path_elem list") (message_of: issue_message)

type_synonym parsed = "issue list + jsval"

type_synonym schema = "jsval \<Rightarrow> parsed"

definition at_path :: "path_elem \<Rightarrow> issue \<Rightarrow> issue" where
  "at_path p i = Issue (p # path_of i) (message_of i)"

definition issues_of :: "parsed \<Rightarrow> issue list" where
  "issues_of r = (case r of Inl es \<Rightarrow> es | Inr _ \<Rightarrow> [])"

definition value_of :: "parsed \<Rightarrow> jsval" where
  "value_of r = (case r of Inl _ \<Rightarrow> JUndefined | Inr v \<Rightarrow> v)"

definition invalid_type :: parsed where
  "invalid_type = Inl [Issue [] Builtin]"

subsection \<open>Primitive schemas and their checks\<close>

datatype string_check = MinLength nat jsstring | Matches "jsstring \<Rightarrow> bool" jsstring

definition string_issue :: "jsstring \<Rightarrow> string_check \<Rightarrow> issue list" where
  "string_issue s c = (case c of
       MinLength n m \<Rightarrow> if length s < n then [Issue [] (Custom m)] else []
     | Matches p m \<Rightarrow> if p s then [] else [Issue [] (Custom m)])"

definition z_string :: "string_check list \<Rightarrow> schema" where
  "z_string checks v = (case v of
       JStr s \<Rightarrow> (let es = concat (map (string_issue s) checks)
                  in if es = [] then Inr (JStr s) else Inl es)
     | _ \<Rightarrow> invalid_type)"

text \<open>
  \<^verbatim>\<open>z.number()\<close> accepts the finite numbers; \<^verbatim>\<open>.int()\<close> asks for a safe integer, one of
  magnitude at most \<open>2^53 - 1\<close>; \<^verbatim>\<open>.positive()\<close> asks for a number above zero.
\<close>

datatype number_check = IsInt | Positive

definition isInteger :: "jsnum \<Rightarrow> bool" where
  "isInteger n = (case n of Fin r \<Rightarrow> \<lfloor>r\<rfloor> = \<lceil>r\<rceil> | _ \<Rightarrow> False)"

definition isSafeInteger :: "jsnum \<Rightarrow> bool" where
  "isSafeInteger n = (case n of
       Fin r \<Rightarrow> isInteger n \<and> - (2 ^ 53 - 1) \<le> r \<and> r \<le> 2 ^ 53 - 1
     | _ \<Rightarrow> False)"

definition gt_zero :: "jsnum \<Rightarrow> bool" where
  "gt_zero n = (case n of Fin r \<Rightarrow> 0 < r | PInf \<Rightarrow> True | _ \<Rightarrow> False)"

definition number_issue :: "jsnum \<Rightarrow> number_check \<Rightarrow> issue list" where
  "number_issue n c = (case c of
       IsInt \<Rightarrow> if isSafeInteger n then [] else [Issue [] Builtin]
     | Positive \<Rightarrow> if gt_zero n then [] else [Issue [] Builtin])"

definition z_number :: "number_check list \<Rightarrow> schema" where
  "z_number checks v = (case v of
       JNum n \<Rightarrow> if n = NaN \<or> n = PInf \<or> n = NInf then invalid_type
                 else (let es = concat (map (number_issue n) checks)
                       in if es = [] then Inr (JNum n) else Inl es)
     | _ \<Rightarrow> invalid_type)"

definition z_boolean :: schema where
  "z_boolean v = (case v of JBool b \<Rightarrow> Inr (JBool b) | _ \<Rightarrow> invalid_type)"

definition z_null :: schema where
  "z_null v = (case v of JNull \<Rightarrow> Inr JNull | _ \<Rightarrow> invalid_type)"

subsection \<open>Wrappers\<close>

text \<open>
  \<^verbatim>\<open>.nullable()\<close> answers a null input with null. \<^verbatim>\<open>.default(d)\<close> answers an undefined
  input with \<open>d\<close>, and puts \<open>d\<close> in place of an undefined result. \<^verbatim>\<open>.optional()\<close>
  lets an undefined input pass: where the wrapped schema itself takes an omitted
  input, as one with a default does, it is consulted and its result stands;
  otherwise the answer is \<^verbatim>\<open>undefined\<close>. So a default survives \<^verbatim>\<open>.partial()\<close>.
\<close>

definition optional :: "schema \<Rightarrow> schema" where
  "optional s v =
     (if v = JUndefined
      then (case s JUndefined of Inr w \<Rightarrow> Inr w | Inl es \<Rightarrow> Inr JUndefined)
      else s v)"

definition nullable :: "schema \<Rightarrow> schema" where
  "nullable s v = (if v = JNull then Inr JNull else s v)"

definition default_to :: "schema \<Rightarrow> jsval \<Rightarrow> schema" where
  "default_to s d v =
     (if v = JUndefined then Inr d
      else (case s v of Inr w \<Rightarrow> Inr (if w = JUndefined then d else w) | Inl es \<Rightarrow> Inl es))"

subsection \<open>Arrays, records, unions\<close>

definition elems :: "jsval \<Rightarrow> jsval list" where
  "elems v = (case v of JArr xs \<Rightarrow> xs | _ \<Rightarrow> [])"

definition entries :: "jsval \<Rightarrow> (jsstring \<times> jsval) list" where
  "entries v = (case v of JObj kvs \<Rightarrow> kvs | _ \<Rightarrow> [])"

definition is_ok :: "parsed \<Rightarrow> bool" where
  "is_ok r = (case r of Inl _ \<Rightarrow> False | Inr _ \<Rightarrow> True)"

definition z_array :: "schema \<Rightarrow> schema" where
  "z_array s v = (case v of
       JArr xs \<Rightarrow>
         (let rs = map s (elems v)
          in if list_all is_ok rs then Inr (JArr (map value_of rs))
             else Inl (concat (map (\<lambda>(i, r). map (at_path (Index i)) (issues_of r))
                                   (enumerate 0 rs))))
     | _ \<Rightarrow> invalid_type)"

text \<open>
  \<^verbatim>\<open>z.record(z.string(), s)\<close> parses the value of every own key of a plain object,
  except a key named \<^verbatim>\<open>__proto__\<close>, which it skips.
\<close>

definition own_entries :: "jsval \<Rightarrow> (jsstring \<times> jsval) list" where
  "own_entries v = filter (\<lambda>kx. fst kx \<noteq> js ''__proto__'') (entries v)"

definition z_record :: "schema \<Rightarrow> schema" where
  "z_record s v = (case v of
       JObj kvs \<Rightarrow>
         (let rs = map (\<lambda>kx. (fst kx, s (snd kx))) (own_entries v)
          in if list_all (\<lambda>kr. is_ok (snd kr)) rs
             then Inr (JObj (map (\<lambda>kr. (fst kr, value_of (snd kr))) rs))
             else Inl (concat (map (\<lambda>kr. map (at_path (Key (fst kr))) (issues_of (snd kr))) rs)))
     | _ \<Rightarrow> invalid_type)"

text \<open>\<^verbatim>\<open>z.union\<close>, from the results of its options in order: the first success.\<close>

definition union_of :: "parsed list \<Rightarrow> parsed" where
  "union_of rs = (case filter is_ok rs of r # _ \<Rightarrow> r | [] \<Rightarrow> invalid_type)"

lemma z_array_cong [fundef_cong]:
  "v = v' \<Longrightarrow> (\<And>x. x \<in> set (elems v') \<Longrightarrow> s x = s' x) \<Longrightarrow> z_array s v = z_array s' v'"
  by (auto simp: z_array_def Let_def split: jsval.splits cong: map_cong)

lemma z_record_cong [fundef_cong]:
  "v = v' \<Longrightarrow> (\<And>x. x \<in> snd ` set (entries v') \<Longrightarrow> s x = s' x)
     \<Longrightarrow> z_record s v = z_record s' v'"
proof -
  assume v: "v = v'" and s: "\<And>x. x \<in> snd ` set (entries v') \<Longrightarrow> s x = s' x"
  have eq: "map (\<lambda>kx. (fst kx, s (snd kx))) (own_entries v')
              = map (\<lambda>kx. (fst kx, s' (snd kx))) (own_entries v')"
    by (rule map_cong) (auto simp: own_entries_def intro!: s image_eqI [of _ snd])
  show ?thesis
    unfolding z_record_def v eq ..
qed

lemma size_elems: "x \<in> set (elems v) \<Longrightarrow> size x < size v"
  by (cases v) (auto simp: elems_def less_Suc_eq_le dest: size_list_estimation')

lemma size_entries: "(k, x) \<in> set (entries v) \<Longrightarrow> size x < size v"
proof (cases v)
  case (JObj kvs)
  have "(k, x) \<in> set kvs \<Longrightarrow> size x \<le> size_list (size_prod (\<lambda>_. 0) size) kvs"
    by (induction kvs) auto
  with JObj show "(k, x) \<in> set (entries v) \<Longrightarrow> size x < size v"
    by (simp add: entries_def)
qed (simp_all add: entries_def)

function jsonValueSchema :: schema where
  "jsonValueSchema v =
     union_of [z_string [] v, z_number [] v, z_boolean v, z_null v,
               z_array jsonValueSchema v, z_record jsonValueSchema v]"
  by pat_completeness auto
termination
  by (relation "measure size") (auto simp: size_elems size_entries)

declare jsonValueSchema.simps [simp del]

subsection \<open>Objects\<close>

text \<open>
  \<^verbatim>\<open>z.object(shape)\<close>: every key of the shape is parsed from the input's property of
  that name; the parse fails when a key fails, and the issues of all keys are
  reported together; keys outside the shape are dropped. A key is written to the
  output when the input has it or its parsed value is not \<^verbatim>\<open>undefined\<close>.
\<close>

type_synonym shape = "(jsstring \<times> schema) list"

definition z_object :: "shape \<Rightarrow> schema" where
  "z_object sh input = (case input of
       JObj kvs \<Rightarrow>
         (let rs = map (\<lambda>ks. (fst ks, snd ks (get input (fst ks)))) sh
          in if list_all (\<lambda>kr. is_ok (snd kr)) rs
             then Inr (JObj (map (\<lambda>kr. (fst kr, value_of (snd kr)))
                    (filter (\<lambda>kr. has_key input (fst kr) \<or> value_of (snd kr) \<noteq> JUndefined) rs)))
             else Inl (concat (map (\<lambda>kr. map (at_path (Key (fst kr))) (issues_of (snd kr))) rs)))
     | _ \<Rightarrow> invalid_type)"

text \<open>\<^verbatim>\<open>.partial()\<close> makes every key optional; \<^verbatim>\<open>.extend(more)\<close> adds or replaces keys.\<close>

definition partial :: "shape \<Rightarrow> shape" where
  "partial sh = map (\<lambda>ks. (fst ks, optional (snd ks))) sh"

definition extend :: "shape \<Rightarrow> shape \<Rightarrow> shape" where
  "extend sh more =
     map (\<lambda>ks. (fst ks, case map_of more (fst ks) of Some s \<Rightarrow> s | None \<Rightarrow> snd ks)) sh
     @ filter (\<lambda>ks. fst ks \<notin> set (map fst sh)) more"

section \<open>The item schemas\<close>

text \<open>
  The two regular expressions of the schema, \<^verbatim>\<open>/^\d+(\.\d{1,3})?$/\<close> and
  \<^verbatim>\<open>/^\d+(\.\d{1,2})?$/\<close>: digits, then optionally a dot and one to \<open>n\<close> digits.
\<close>

definition decimal_regex :: "nat \<Rightarrow> jsstring \<Rightarrow> bool" where
  "decimal_regex n s =
     (let ip = takeWhile isDigit s; rest = dropWhile isDigit s
      in ip \<noteq> [] \<and>
         (rest = [] \<or>
          (hd rest = 0x2E \<and> 1 \<le> length (tl rest) \<and> length (tl rest) \<le> n
           \<and> list_all isDigit (tl rest))))"

definition quantity_regex :: "jsstring \<Rightarrow> bool" where
  "quantity_regex = decimal_regex 3"

definition price_regex :: "jsstring \<Rightarrow> bool" where
  "price_regex = decimal_regex 2"

text \<open>
  The check \<^verbatim>\<open>z.string().datetime()\<close> belongs to the validation library; the schema
  takes it as the parameter \<open>isDatetime\<close>.
\<close>

definition createItemShape :: "(jsstring \<Rightarrow> bool) \<Rightarrow> shape" where
  "createItemShape isDatetime =
     [(js ''name'', z_string [MinLength 1 msg_name_empty]),
      (js ''source'', nullable (optional (z_string []))),
      (js ''category'', nullable (optional (z_string []))),
      (js ''quantity'',
         nullable (optional (z_string [Matches quantity_regex msg_quantity_format]))),
      (js ''unit'', nullable (optional (z_string []))),
      (js ''usedQuantity'',
         default_to
           (nullable (optional (z_string [Matches quantity_regex msg_used_quantity_format])))
           (JStr (js ''0.0''))),
      (js ''productionDate'',
         nullable (optional (z_string [Matches isDatetime msg_production_date_format]))),
      (js ''expiryDate'',
         nullable (optional (z_string [Matches isDatetime msg_expiry_date_format]))),
      (js ''locationId'', nullable (optional (z_number [IsInt, Positive]))),
      (js ''price'', nullable (optional (z_string [Matches price_regex msg_price_format]))),
      (js ''extraInfo'', optional (z_record jsonValueSchema))]"

definition createItemSchema :: "(jsstring \<Rightarrow> bool) \<Rightarrow> schema" where
  "createItemSchema isDatetime = z_object (createItemShape isDatetime)"

definition updateItemSchema :: "(jsstring \<Rightarrow> bool) \<Rightarrow> schema" where
  "updateItemSchema isDatetime = z_object (extend (partial (createItemShape isDatetime)) [])"

section \<open>The item routes\<close>

text \<open>
  The reply to a request: the validation middleware rejects a payload that fails its
  schema with status 400 and the issues, before the handler runs; otherwise the
  reply is the handler's response.
\<close>

datatype reply = Rejected "issue list" | Handled response

definition zValidator :: "schema \<Rightarrow> jsval \<Rightarrow> (jsval \<Rightarrow> response io) \<Rightarrow> reply io" where
  "zValidator s form handler = (case s form of
       Inl es \<Rightarrow> unit_io (Rejected es)
     | Inr data \<Rightarrow> map_io Handled (handler data))"

subsection \<open>List\<close>

definition get_handler :: "client \<Rightarrow> response io" where
  "get_handler prisma =
     try_catch
       (bind_io (await prisma ItemFindMany) (\<lambda>allItems.
          lift (successResponse allItems None)))
       (\<lambda>error. lift (errorResponse msg_list_failed (Some (Fin 500))))"

subsection \<open>Create\<close>

text \<open>The object literal passed as \<^verbatim>\<open>data\<close> to \<^verbatim>\<open>prisma.item.create\<close>.\<close>

definition create_data :: "jsval \<Rightarrow> jsval outcome" where
  "create_data data =
     bind (trim_call (get data (js ''name''))) (\<lambda>name.
     bind (opt_trim (get data (js ''source''))) (\<lambda>source.
     bind (opt_trim (get data (js ''unit''))) (\<lambda>unit.
     Returns (JObj
       [(js ''name'', name),
        (js ''source'', js_or source JNull),
        (js ''quantity'', if truthy (get data (js ''quantity'')) then get data (js ''quantity'') else JNull),
        (js ''unit'', js_or unit JNull),
        (js ''usedQuantity'', get data (js ''usedQuantity'')),
        (js ''productionDate'',
           if truthy (get data (js ''productionDate'')) then JDate (get data (js ''productionDate''))
           else JNull),
        (js ''expiryDate'',
           if truthy (get data (js ''expiryDate'')) then JDate (get data (js ''expiryDate'')) else JNull),
        (js ''locationId'', nullish (get data (js ''locationId'')) JUndefined),
        (js ''price'', if truthy (get data (js ''price'')) then get data (js ''price'') else JNull),
        (js ''extraInfo'', get data (js ''extraInfo''))]))))"

definition post_handler :: "client \<Rightarrow> jsval \<Rightarrow> response io" where
  "post_handler prisma data =
     try_catch
       (bind_io (lift (create_data data)) (\<lambda>d.
        bind_io (await prisma (ItemCreate d)) (\<lambda>newItem.
          lift (successResponse newItem (Some (Fin 201))))))
       (\<lambda>error. lift (errorResponse msg_create_failed (Some (Fin 500))))"

definition post_route :: "(jsstring \<Rightarrow> bool) \<Rightarrow> client \<Rightarrow> jsval \<Rightarrow> reply io" where
  "post_route isDatetime prisma form =
     zValidator (createItemSchema isDatetime) form (post_handler prisma)"

subsection \<open>Update\<close>

text \<open>
  One line of the update set: \<^verbatim>\<open>if (data.k !== undefined) updateData.k = rhs(data.k)\<close>.
\<close>

definition assign_if_defined ::
  "jsval \<Rightarrow> jsstring \<Rightarrow> (jsval \<Rightarrow> jsval outcome) \<Rightarrow> jsval \<Rightarrow> jsval outcome" where
  "assign_if_defined data k rhs updateData =
     (if get data k \<noteq> JUndefined
      then bind (rhs (get data k)) (\<lambda>v. Returns (obj_set updateData k v))
      else Returns updateData)"

definition trim_or_null :: "jsval \<Rightarrow> jsval outcome" where
  \<comment> \<open>\<^verbatim>\<open>v?.trim() || null\<close>\<close>
  "trim_or_null v = bind (opt_trim v) (\<lambda>t. Returns (js_or t JNull))"

definition as_is :: "jsval \<Rightarrow> jsval outcome" where
  "as_is v = Returns v"

definition date_or_null :: "jsval \<Rightarrow> jsval outcome" where
  \<comment> \<open>\<^verbatim>\<open>v ? new Date(v) : null\<close>\<close>
  "date_or_null v = Returns (if truthy v then JDate v else JNull)"

definition or_null :: "jsval \<Rightarrow> jsval outcome" where
  \<comment> \<open>\<^verbatim>\<open>v ?? null\<close>\<close>
  "or_null v = Returns (nullish v JNull)"

text \<open>The lines that build \<^verbatim>\<open>updateData\<close>, in the order of the source.\<close>

definition update_lines :: "(jsstring \<times> (jsval \<Rightarrow> jsval outcome)) list" where
  "update_lines =
     [(js ''name'', trim_or_null),
      (js ''source'', trim_or_null),
      (js ''quantity'', as_is),
      (js ''unit'', trim_or_null),
      (js ''usedQuantity'', as_is),
      (js ''productionDate'', date_or_null),
      (js ''expiryDate'', date_or_null),
      (js ''locationId'', or_null),
      (js ''price'', as_is),
      (js ''extraInfo'', as_is)]"

fun assign_lines ::
  "jsval \<Rightarrow> (jsstring \<times> (jsval \<Rightarrow> jsval outcome)) list \<Rightarrow> jsval \<Rightarrow> jsval outcome" where
  "assign_lines data [] updateData = Returns updateData"
| "assign_lines data ((k, rhs) # rest) updateData =
     bind (assign_if_defined data k rhs updateData) (assign_lines data rest)"

definition update_data :: "jsval \<Rightarrow> jsval outcome" where
  "update_data data = assign_lines data update_lines (JObj [])"

definition is_not_found :: "exn \<Rightarrow> bool" where
  \<comment> \<open>\<^verbatim>\<open>error instanceof Prisma.PrismaClientKnownRequestError && error.code === 'P2025'\<close>\<close>
  "is_not_found error = (case error of
       PrismaClientKnownRequestError code \<Rightarrow> code = js ''P2025''
     | _ \<Rightarrow> False)"

definition put_handler :: "client \<Rightarrow> jsstring \<Rightarrow> jsval \<Rightarrow> response io" where
  "put_handler prisma idParam data =
     (let id = Number idParam
      in if isNaN id \<or> le_zero id then lift (errorResponse msg_invalid_id (Some (Fin 400)))
         else bind_io (lift (update_data data)) (\<lambda>updateData.
              try_catch
                (bind_io (await prisma (ItemUpdate id updateData)) (\<lambda>updatedItem.
                   lift (successResponse updatedItem None)))
                (\<lambda>error.
                   if is_not_found error then lift (errorResponse msg_not_found (Some (Fin 404)))
                   else lift (errorResponse msg_update_failed (Some (Fin 500))))))"

definition put_route :: "(jsstring \<Rightarrow> bool) \<Rightarrow> client \<Rightarrow> jsstring \<Rightarrow> jsval \<Rightarrow> reply io" where
  "put_route isDatetime prisma idParam form =
     zValidator (updateItemSchema isDatetime) form (put_handler prisma idParam)"

subsection \<open>Delete\<close>

definition delete_handler :: "client \<Rightarrow> jsstring \<Rightarrow> response io" where
  "delete_handler prisma idParam =
     (let id = Number idParam
      in if isNaN id \<or> le_zero id then lift (errorResponse msg_invalid_id (Some (Fin 400)))
         else try_catch
                (bind_io (await prisma (ItemDelete id)) (\<lambda>_.
                   lift (successResponse (JObj [(js ''message'', JStr msg_deleted)]) None)))
                (\<lambda>error.
                   if is_not_found error then lift (errorResponse msg_not_found (Some (Fin 404)))
                   else lift (errorResponse msg_delete_failed (Some (Fin 500)))))"

section \<open>Sample collaborators\<close>

text \<open>
  A date-time check and a persistence client for the closed examples: the check
  accepts the UTC form \<^verbatim>\<open>YYYY-MM-DDThh:mm:ssZ\<close>; the client holds the single item 1,
  echoes what it is given, and signals a missing record by the code \<^verbatim>\<open>P2025\<close>.
\<close>

definition utc_datetime :: "jsstring \<Rightarrow> bool" where
  "utc_datetime s \<longleftrightarrow>
     length s = 20 \<and>
     list_all isDigit (take 4 s) \<and> s ! 4 = 0x2D \<and>
     list_all isDigit (take 2 (drop 5 s)) \<and> s ! 7 = 0x2D \<and>
     list_all isDigit (take 2 (drop 8 s)) \<and> s ! 10 = 0x54 \<and>
     list_all isDigit (take 2 (drop 11 s)) \<and> s ! 13 = 0x3A \<and>
     list_all isDigit (take 2 (drop 14 s)) \<and> s ! 16 = 0x3A \<and>
     list_all isDigit (take 2 (drop 17 s)) \<and> s ! 19 = 0x5A"

fun one_item_client :: client where
  "one_item_client ItemFindMany = Returns (JArr [])"
| "one_item_client (ItemCreate d) = Returns d"
| "one_item_client (ItemUpdate n d) =
     (if n = Fin 1 then Returns d else Throws (PrismaClientKnownRequestError (js ''P2025'')))"
| "one_item_client (ItemDelete n) =
     (if n = Fin 1 then Returns JNull else Throws (PrismaClientKnownRequestError (js ''P2025'')))"

definition failing_client :: client where
  "failing_client c = Throws (OtherError (JStr (js ''connection lost'')))"

section \<open>Notions of the specification\<close>

text \<open>
  A JSON value, in the words of the specification: a string, a number, a boolean,
  null, an array of JSON values or a mapping from strings to JSON values.
\<close>

function is_json :: "jsval \<Rightarrow> bool" where
  "is_json v = (case v of
       JNull \<Rightarrow> True
     | JBool b \<Rightarrow> True
     | JStr s \<Rightarrow> True
     | JNum n \<Rightarrow> (case n of Fin r \<Rightarrow> True | _ \<Rightarrow> False)
     | JArr xs \<Rightarrow> list_all is_json (elems v)
     | JObj kvs \<Rightarrow> list_all (\<lambda>kx. is_json (snd kx)) (entries v)
     | _ \<Rightarrow> False)"
  by pat_completeness auto
termination
  by (relation "measure size") (auto dest: size_elems size_entries)

declare is_json.simps [simp del]

text \<open>
  A value without its keys named \<^verbatim>\<open>__proto__\<close>, at every depth; and whether a value
  has such a key at some depth.
\<close>

lemma size_own_entries: "kx \<in> set (own_entries v) \<Longrightarrow> size (snd kx) < size v"
  using size_entries [of "fst kx" "snd kx" v] by (simp add: own_entries_def)

function drop_proto :: "jsval \<Rightarrow> jsval" where
  "drop_proto v = (case v of
       JArr xs \<Rightarrow> JArr (map drop_proto (elems v))
     | JObj kvs \<Rightarrow> JObj (map (\<lambda>kx. (fst kx, drop_proto (snd kx))) (own_entries v))
     | _ \<Rightarrow> v)"
  by pat_completeness auto
termination
  by (relation "measure size") (auto dest: size_elems size_own_entries)

declare drop_proto.simps [simp del]

function has_proto :: "jsval \<Rightarrow> bool" where
  "has_proto v = (case v of
       JArr xs \<Rightarrow> list_ex has_proto (elems v)
     | JObj kvs \<Rightarrow> list_ex (\<lambda>kx. fst kx = js ''__proto__'' \<or> has_proto (snd kx)) (entries v)
     | _ \<Rightarrow> False)"
  by pat_completeness auto
termination
  by (relation "measure size") (auto dest: size_elems size_entries)

declare has_proto.simps [simp del]

text \<open>
  The envelope: \<^verbatim>\<open>{success: true, data: payload}\<close> or
  \<^verbatim>\<open>{success: false, error: message}\<close> with a string message.
\<close>

abbreviation success_envelope :: "jsval \<Rightarrow> nat \<Rightarrow> response" where
  "success_envelope payload s \<equiv>
     Response (JObj [(js ''success'', JBool True), (js ''data'', payload)]) s"

abbreviation error_envelope :: "jsstring \<Rightarrow> nat \<Rightarrow> response" where
  "error_envelope message s \<equiv>
     Response (JObj [(js ''success'', JBool False), (js ''error'', JStr message)]) s"

definition is_envelope :: "response \<Rightarrow> bool" where
  "is_envelope r \<longleftrightarrow>
     body_of r = JObj [(js ''success'', JBool True), (js ''data'', get (body_of r) (js ''data''))]
     \<or> (body_of r = JObj [(js ''success'', JBool False), (js ''error'', get (body_of r) (js ''error''))]
        \<and> (case get (body_of r) (js ''error'') of JStr m \<Rightarrow> True | _ \<Rightarrow> False))"

section \<open>Evaluation rules\<close>

lemma bitLength_nonpos: "n \<le> 0 \<Longrightarrow> bitLength n = 0"
  by (simp add: bitLength.simps)

lemma bitLength_pos: "0 < n \<Longrightarrow> bitLength n = 1 + bitLength (n div 2)"
  by (subst bitLength.simps) simp

lemma floor_rat_numeral: "\<lfloor>(numeral a :: rat) / numeral b\<rfloor> = numeral a div numeral b"
  by (metis floor_divide_of_int_eq of_int_numeral)

lemma ceiling_rat_numeral:
  "\<lceil>(numeral a :: rat) / numeral b\<rceil> = - (- numeral a div numeral b)"
  by (metis ceiling_divide_eq_div of_int_numeral)

lemmas number_eval =
  bitLength_nonpos bitLength_pos floor_rat_numeral ceiling_rat_numeral pow2_def pow10_def binade_def roundHalfEven_def
  toDoublePos_def toDouble_def negate_def digitValue_def digitsValue_def isRadixDigit_def
  radixPrefix_def splitSign_def exponentPart_def unsignedDecimal_def Number_def
  isNaN_def le_zero_def

lemmas value_eval =
  js_def get_def has_key_def obj_set_def keys_of_def truthy_def js_or_def nullish_def
  trim_def isWhiteSpace_def isDigit_def Let_def

lemmas io_eval =
  bind_def unit_io_def lift_def await_def bind_io_def try_catch_def map_io_def
  trim_call_def opt_trim_def toUint16_def Response_json_def successResponse_def
  errorResponse_def

lemmas schema_eval =
  at_path_def issues_of_def value_of_def invalid_type_def string_issue_def z_string_def
  isInteger_def isSafeInteger_def gt_zero_def number_issue_def z_number_def z_boolean_def z_null_def
  optional_def nullable_def default_to_def elems_def entries_def own_entries_def is_ok_def z_array_def
  z_record_def union_of_def jsonValueSchema.simps z_object_def partial_def extend_def decimal_regex_def
  quantity_regex_def price_regex_def createItemShape_def createItemSchema_def
  updateItemSchema_def utc_datetime_def

lemmas route_eval =
  zValidator_def get_handler_def create_data_def post_handler_def post_route_def
  assign_if_defined_def trim_or_null_def as_is_def date_or_null_def or_null_def
  update_lines_def update_data_def is_not_found_def put_handler_def put_route_def
  delete_handler_def

section \<open>Facts about objects\<close>

lemma get_JObj: "get (JObj kvs) k = (case map_of kvs k of Some v \<Rightarrow> v | None \<Rightarrow> JUndefined)"
  by (simp add: get_def)

lemma get_defined_is_object: "get obj k \<noteq> JUndefined \<Longrightarrow> \<exists>kvs. obj = JObj kvs"
  by (cases obj) (simp_all add: get_def)

lemma get_obj_set_same: "get (obj_set (JObj kvs) k v) k = v"
  by (simp add: get_def obj_set_def update_conv')

lemma get_obj_set_other: "k' \<noteq> k \<Longrightarrow> get (obj_set (JObj kvs) k v) k' = get (JObj kvs) k'"
  by (simp add: get_def obj_set_def update_conv')

lemma keys_of_obj_set: "keys_of (obj_set (JObj kvs) k v) = insert k (keys_of (JObj kvs))"
  by (simp add: keys_of_def obj_set_def update_conv' flip: dom_map_of_conv_image_fst)

lemma obj_set_is_object: "\<exists>kvs'. obj_set (JObj kvs) k v = JObj kvs'"
  by (simp add: obj_set_def)

section \<open>Facts about schemas\<close>

lemma is_ok_iff: "is_ok r \<longleftrightarrow> (\<exists>v. r = Inr v)"
  by (cases r) (simp_all add: is_ok_def)

lemma z_string_ok: "z_string cs v = Inr v' \<Longrightarrow> v' = v \<and> (\<exists>s. v = JStr s)"
  by (cases v) (auto simp: z_string_def invalid_type_def Let_def split: if_splits)

lemma z_string_no_checks: "z_string [] (JStr s) = Inr (JStr s)"
  by (simp add: z_string_def)

lemma z_string_min1: "z_string [MinLength 1 m] v = Inr v' \<Longrightarrow> v' = v \<and> (\<exists>s. v = JStr s \<and> s \<noteq> [])"
  by (cases v) (auto simp: z_string_def invalid_type_def string_issue_def Let_def split: if_splits)

lemma z_string_matches:
  "z_string [Matches p m] v = (case v of JStr s \<Rightarrow> if p s then Inr v else Inl [Issue [] (Custom m)]
                               | _ \<Rightarrow> invalid_type)"
  by (cases v) (auto simp: z_string_def string_issue_def)

lemma nullable_optional_ok:
  "nullable (optional s) v = Inr v' \<Longrightarrow> v = JNull \<and> v' = JNull \<or> v = JUndefined \<and> v' = JUndefined \<or> s v = Inr v'"
  by (auto simp: nullable_def optional_def split: if_splits sum.splits)

lemma string_field_ok:
  "nullable (optional (z_string cs)) v = Inr v' \<Longrightarrow>
     v' = v \<and> (v = JNull \<or> v = JUndefined \<or> (\<exists>s. v = JStr s))"
  by (auto dest!: nullable_optional_ok z_string_ok)

lemma optional_ok:
  "optional s v = Inr v' \<Longrightarrow> v = JUndefined \<and> v' = JUndefined \<or> s v = Inr v'"
  by (auto simp: optional_def split: if_splits sum.splits)

subsection \<open>The object schema\<close>

lemma z_object_ok_iff:
  "is_ok (z_object sh (JObj kvs)) \<longleftrightarrow> (\<forall>(k, s) \<in> set sh. is_ok (s (get (JObj kvs) k)))"
  by (auto simp: z_object_def Let_def list_all_iff is_ok_def)

lemma z_object_fails:
  assumes "(k, s) \<in> set sh" and "s (get (JObj kvs) k) = Inl es"
  shows "\<exists>is. z_object sh (JObj kvs) = Inl is \<and> set (map (at_path (Key k)) es) \<subseteq> set is"
proof -
  let ?rs = "map (\<lambda>ks. (fst ks, snd ks (get (JObj kvs) (fst ks)))) sh"
  have bad: "(k, Inl es) \<in> set ?rs"
    using assms by force
  have "\<not> is_ok (snd (k, Inl es :: parsed))"
    by (simp add: is_ok_def)
  with bad have "\<not> list_all (\<lambda>kr. is_ok (snd kr)) ?rs"
    unfolding list_all_iff by blast
  moreover have "set (map (at_path (Key k)) es)
      \<subseteq> set (concat (map (\<lambda>kr. map (at_path (Key (fst kr))) (issues_of (snd kr))) ?rs))"
    using bad by (fastforce simp: issues_of_def)
  ultimately show ?thesis
    by (simp add: z_object_def Let_def)
qed

lemma map_of_filter_map_none:
  "k \<notin> fst ` set sh \<Longrightarrow>
     map_of (map (\<lambda>kr. (fst kr, g (snd kr))) (filter P (map (\<lambda>ks. (fst ks, f ks)) sh))) k = None"
  by (induction sh) auto

lemma map_of_filter_map_distinct:
  assumes "distinct (map fst sh)" and "(k, s) \<in> set sh"
  shows "map_of (map (\<lambda>kr. (fst kr, g (snd kr))) (filter P (map (\<lambda>ks. (fst ks, f ks)) sh))) k
         = (if P (k, f (k, s)) then Some (g (f (k, s))) else None)"
  using assms
proof (induction sh)
  case Nil
  then show ?case by simp
next
  case (Cons a sh)
  show ?case
  proof (cases "a = (k, s)")
    case True
    with Cons.prems have "k \<notin> fst ` set sh" by auto
    then show ?thesis
      using True by (simp add: map_of_filter_map_none)
  next
    case False
    with Cons.prems have m: "(k, s) \<in> set sh" and d: "distinct (map fst sh)" and "fst a \<noteq> k"
      by (auto simp: rev_image_eqI)
    then show ?thesis
      using Cons.IH by simp
  qed
qed

lemma z_object_get:
  assumes ok: "z_object sh input = Inr out" and d: "distinct (map fst sh)" and m: "(k, s) \<in> set sh"
  shows "s (get input k) = Inr (get out k)"
proof -
  obtain kvs where input: "input = JObj kvs"
    using ok by (cases input) (simp_all add: z_object_def invalid_type_def)
  let ?f = "\<lambda>ks. snd ks (get input (fst ks))"
  let ?rs = "map (\<lambda>ks. (fst ks, ?f ks)) sh"
  let ?P = "\<lambda>kr. has_key input (fst kr) \<or> value_of (snd kr) \<noteq> JUndefined"
  have all: "list_all (\<lambda>kr. is_ok (snd kr)) ?rs"
    and out: "out = JObj (map (\<lambda>kr. (fst kr, value_of (snd kr))) (filter ?P ?rs))"
    using ok unfolding input z_object_def Let_def by (auto split: if_splits)
  from all m obtain v where v: "s (get input k) = Inr v"
    by (force simp: list_all_iff is_ok_iff)
  have "map_of (map (\<lambda>kr. (fst kr, value_of (snd kr))) (filter ?P ?rs)) k
        = (if ?P (k, ?f (k, s)) then Some (value_of (?f (k, s))) else None)"
    by (rule map_of_filter_map_distinct [OF d m])
  then have "get out k = v"
    using v by (auto simp: out get_def value_of_def)
  with v show ?thesis by simp
qed

subsection \<open>The item shapes\<close>

lemma createItemShape_distinct: "distinct (map fst (createItemShape isDatetime))"
  by (simp add: createItemShape_def)

lemma extend_empty: "extend sh [] = sh"
  by (simp add: extend_def)

lemma partial_keys: "map fst (partial sh) = map fst sh"
  by (simp add: partial_def comp_def)

lemma partial_member: "(k, s) \<in> set sh \<Longrightarrow> (k, optional s) \<in> set (partial sh)"
  by (force simp: partial_def)

lemma create_field:
  assumes "createItemSchema isDatetime form = Inr data" and "(k, s) \<in> set (createItemShape isDatetime)"
  shows "s (get form k) = Inr (get data k)"
  using assms z_object_get [OF _ createItemShape_distinct]
  by (simp add: createItemSchema_def)

lemma update_field:
  assumes "updateItemSchema isDatetime form = Inr data" and "(k, s) \<in> set (createItemShape isDatetime)"
  shows "optional s (get form k) = Inr (get data k)"
proof -
  have "distinct (map fst (partial (createItemShape isDatetime)))"
    by (simp add: partial_keys createItemShape_distinct)
  then show ?thesis
    using assms z_object_get [OF _ _ partial_member]
    by (simp add: updateItemSchema_def extend_empty)
qed

section \<open>Facts about the handlers\<close>

lemma responses:
  "successResponse d None = Returns (success_envelope d 200)"
  "successResponse d (Some (Fin 201)) = Returns (success_envelope d 201)"
  "errorResponse m (Some (Fin 400)) = Returns (error_envelope m 400)"
  "errorResponse m (Some (Fin 404)) = Returns (error_envelope m 404)"
  "errorResponse m (Some (Fin 500)) = Returns (error_envelope m 500)"
  by (simp_all add: successResponse_def errorResponse_def Response_json_def toUint16_def)

lemma guard_rejects:
  assumes "isNaN (Number idParam) \<or> le_zero (Number idParam)"
  shows "delete_handler prisma idParam = ([], Returns (error_envelope msg_invalid_id 400))"
    and "put_handler prisma idParam data = ([], Returns (error_envelope msg_invalid_id 400))"
  using assms by (auto simp: delete_handler_def put_handler_def lift_def responses Let_def)

lemma zValidator_calls:
  "fst (zValidator s form h) = (case s form of Inl es \<Rightarrow> [] | Inr data \<Rightarrow> fst (h data))"
  by (auto simp: zValidator_def unit_io_def map_io_def split: sum.splits prod.splits outcome.splits)

lemma Number_0: "Number (js ''0'') = Fin 0"
  by (simp add: number_eval value_eval)

lemma Number_minus_1: "Number (js ''-1'') = Fin (- 1)"
  by (simp add: number_eval value_eval)

lemma Number_abc: "Number (js ''abc'') = NaN"
  by (simp add: number_eval value_eval)

lemma Number_1: "Number (js ''1'') = Fin 1"
  by (simp add: number_eval value_eval)

lemma Number_2: "Number (js ''2'') = Fin 2"
  by (simp add: number_eval value_eval)

section \<open>Facts about the recursive JSON schema\<close>

lemma union_of_first: "is_ok r \<Longrightarrow> union_of (r # rs) = r"
  by (simp add: union_of_def)

lemma union_of_skip: "\<not> is_ok r \<Longrightarrow> union_of (r # rs) = union_of rs"
  by (simp add: union_of_def)

lemma union_of_ok: "union_of rs = Inr v \<Longrightarrow> Inr v \<in> set rs"
proof -
  assume a: "union_of rs = Inr v"
  have "filter is_ok rs \<noteq> []"
    using a by (auto simp: union_of_def invalid_type_def)
  then obtain r rest where f: "filter is_ok rs = r # rest"
    by (cases "filter is_ok rs") auto
  then have "r = Inr v"
    using a by (simp add: union_of_def)
  moreover have "r \<in> set (filter is_ok rs)"
    using f by simp
  ultimately show ?thesis by simp
qed

lemma json_step:
  "jsonValueSchema v = (case v of
       JStr s \<Rightarrow> Inr v
     | JNum n \<Rightarrow> if n = NaN \<or> n = PInf \<or> n = NInf then invalid_type else Inr v
     | JBool b \<Rightarrow> Inr v
     | JNull \<Rightarrow> Inr v
     | JArr xs \<Rightarrow> (if is_ok (z_array jsonValueSchema v) then z_array jsonValueSchema v else invalid_type)
     | JObj kvs \<Rightarrow> (if is_ok (z_record jsonValueSchema v) then z_record jsonValueSchema v else invalid_type)
     | _ \<Rightarrow> invalid_type)"
  apply (subst jsonValueSchema.simps)
  apply (cases v)
         apply (simp_all add: union_of_def z_string_def z_number_def z_boolean_def z_null_def
      z_array_def z_record_def invalid_type_def is_ok_def Let_def)
  done

lemma drop_proto_other:
  "drop_proto JUndefined = JUndefined" "drop_proto JNull = JNull" "drop_proto (JBool b) = JBool b"
  "drop_proto (JNum n) = JNum n" "drop_proto (JStr s) = JStr s" "drop_proto (JDate d) = JDate d"
  by (simp_all add: drop_proto.simps)

lemma drop_proto_JArr: "drop_proto (JArr xs) = JArr (map drop_proto xs)"
  by (simp add: drop_proto.simps [of "JArr xs"] elems_def)

lemma drop_proto_JObj:
  "drop_proto (JObj kvs)
     = JObj (map (\<lambda>kx. (fst kx, drop_proto (snd kx))) (filter (\<lambda>kx. fst kx \<noteq> js ''__proto__'') kvs))"
  by (simp add: drop_proto.simps [of "JObj kvs"] own_entries_def entries_def)

lemma has_proto_JArr: "has_proto (JArr xs) \<longleftrightarrow> (\<exists>x \<in> set xs. has_proto x)"
  by (simp add: has_proto.simps [of "JArr xs"] elems_def list_ex_iff)

lemma has_proto_JObj:
  "has_proto (JObj kvs) \<longleftrightarrow> (\<exists>kx \<in> set kvs. fst kx = js ''__proto__'' \<or> has_proto (snd kx))"
  by (simp add: has_proto.simps [of "JObj kvs"] entries_def list_ex_iff)

lemma drop_proto_id: "\<not> has_proto v \<Longrightarrow> drop_proto v = v"
proof (induction v)
  case (JArr xs)
  have "map drop_proto xs = xs"
    using JArr by (auto simp: has_proto_JArr intro: map_idI)
  then show ?case by (simp add: drop_proto_JArr)
next
  case (JObj kvs)
  have keep: "filter (\<lambda>kx. fst kx \<noteq> js ''__proto__'') kvs = kvs"
    using JObj.prems by (auto simp: has_proto_JObj intro: filter_True)
  have "map (\<lambda>kx. (fst kx, drop_proto (snd kx))) kvs = kvs"
  proof (rule map_idI)
    fix kx assume x: "kx \<in> set kvs"
    have "snd kx \<in> Basic_BNFs.snds kx"
      by (cases kx) simp
    moreover have "\<not> has_proto (snd kx)"
      using JObj.prems x by (auto simp: has_proto_JObj)
    ultimately have "drop_proto (snd kx) = snd kx"
      using JObj.IH [OF x] by blast
    then show "(fst kx, drop_proto (snd kx)) = kx"
      by (cases kx) simp
  qed
  then show ?case by (simp add: drop_proto_JObj keep)
qed (simp_all add: drop_proto_other)

lemma json_parsed: "jsonValueSchema v = Inr v' \<Longrightarrow> v' = drop_proto v"
proof (induction v arbitrary: v')
  case (JArr xs)
  have ok: "z_array jsonValueSchema (JArr xs) = Inr v'"
    using JArr.prems by (subst (asm) json_step) (auto simp: invalid_type_def split: if_splits)
  then have all: "list_all is_ok (map jsonValueSchema xs)"
    and v': "v' = JArr (map value_of (map jsonValueSchema xs))"
    by (auto simp: z_array_def elems_def Let_def split: if_splits)
  have "map (\<lambda>x. value_of (jsonValueSchema x)) xs = map drop_proto xs"
  proof (rule map_cong [OF refl])
    fix x assume x: "x \<in> set xs"
    with all obtain w where w: "jsonValueSchema x = Inr w"
      by (auto simp: list_all_iff is_ok_iff)
    with JArr.IH [OF x w] show "value_of (jsonValueSchema x) = drop_proto x"
      by (simp add: value_of_def)
  qed
  with v' show ?case by (simp add: comp_def drop_proto_JArr)
next
  case (JObj kvs)
  let ?own = "filter (\<lambda>kx. fst kx \<noteq> js ''__proto__'') kvs"
  have ok: "z_record jsonValueSchema (JObj kvs) = Inr v'"
    using JObj.prems by (subst (asm) json_step) (auto simp: invalid_type_def split: if_splits)
  then have all: "list_all (\<lambda>kr. is_ok (snd kr)) (map (\<lambda>kx. (fst kx, jsonValueSchema (snd kx))) ?own)"
    and v': "v' = JObj (map (\<lambda>kr. (fst kr, value_of (snd kr)))
                      (map (\<lambda>kx. (fst kx, jsonValueSchema (snd kx))) ?own))"
    by (auto simp: z_record_def own_entries_def entries_def Let_def split: if_splits)
  have "map (\<lambda>kx. (fst kx, value_of (jsonValueSchema (snd kx)))) ?own
          = map (\<lambda>kx. (fst kx, drop_proto (snd kx))) ?own"
  proof (rule map_cong [OF refl])
    fix kx assume own: "kx \<in> set ?own"
    then have x: "kx \<in> set kvs" by simp
    from own all have "is_ok (jsonValueSchema (snd kx))"
      by (cases kx) (auto simp: list_all_iff)
    then obtain w where w: "jsonValueSchema (snd kx) = Inr w"
      by (auto simp: is_ok_iff)
    have "snd kx \<in> Basic_BNFs.snds kx"
      by (cases kx) simp
    from JObj.IH [OF x this w] w
    show "(fst kx, value_of (jsonValueSchema (snd kx))) = (fst kx, drop_proto (snd kx))"
      by (simp add: value_of_def)
  qed
  with v' show ?case by (simp add: comp_def drop_proto_JObj)
qed (auto simp: json_step invalid_type_def drop_proto_other split: if_splits)

lemma json_accepts: "is_json v \<Longrightarrow> jsonValueSchema v = Inr (drop_proto v)"
proof (induction v)
  case (JArr xs)
  have each: "jsonValueSchema x = Inr (drop_proto x)" if "x \<in> set xs" for x
    using JArr.IH [OF that] JArr.prems that
    by (subst (asm) is_json.simps) (simp add: elems_def list_all_iff)
  have "z_array jsonValueSchema (JArr xs) = Inr (drop_proto (JArr xs))"
    using each
    by (simp add: z_array_def elems_def Let_def list_all_iff is_ok_def value_of_def drop_proto_JArr)
  then show ?case
    by (subst json_step) (simp add: is_ok_def)
next
  case (JObj kvs)
  have each: "jsonValueSchema (snd kx) = Inr (drop_proto (snd kx))" if "kx \<in> set kvs" for kx
  proof -
    have "snd kx \<in> Basic_BNFs.snds kx" by (cases kx) simp
    moreover have "is_json (snd kx)"
      using JObj.prems that by (subst (asm) is_json.simps) (simp add: entries_def list_all_iff)
    ultimately show ?thesis
      using JObj.IH [OF that] by blast
  qed
  have "z_record jsonValueSchema (JObj kvs) = Inr (drop_proto (JObj kvs))"
    using each
    by (simp add: z_record_def own_entries_def entries_def Let_def list_all_iff is_ok_def
          value_of_def drop_proto_JObj)
  then show ?case
    by (subst json_step) (simp add: is_ok_def)
qed (auto simp: json_step is_json.simps drop_proto_other split: jsnum.splits)

section \<open>Facts about the item schemas and the create route\<close>

lemma z_record_json_accepts:
  assumes "is_json (JObj kvs)"
  shows "z_record jsonValueSchema (JObj kvs) = Inr (drop_proto (JObj kvs))"
proof -
  have "jsonValueSchema (JObj kvs) = Inr (drop_proto (JObj kvs))"
    by (rule json_accepts [OF assms])
  then show ?thesis
    by (subst (asm) json_step) (simp add: invalid_type_def split: if_splits)
qed

lemma z_record_json_ok:
  assumes "z_record jsonValueSchema v = Inr v'"
  shows "v' = drop_proto v \<and> (\<exists>kvs. v = JObj kvs)"
proof -
  obtain kvs where v: "v = JObj kvs"
    using assms by (cases v) (simp_all add: z_record_def invalid_type_def)
  have "jsonValueSchema v = Inr v'"
    using assms by (subst json_step) (simp add: v is_ok_def)
  then show ?thesis
    using v by (simp add: json_parsed)
qed

lemma in_shape:
  "(js ''name'', z_string [MinLength 1 msg_name_empty]) \<in> set (createItemShape isDatetime)"
  "(js ''source'', nullable (optional (z_string []))) \<in> set (createItemShape isDatetime)"
  "(js ''category'', nullable (optional (z_string []))) \<in> set (createItemShape isDatetime)"
  "(js ''quantity'', nullable (optional (z_string [Matches quantity_regex msg_quantity_format])))
     \<in> set (createItemShape isDatetime)"
  "(js ''unit'', nullable (optional (z_string []))) \<in> set (createItemShape isDatetime)"
  "(js ''usedQuantity'',
      default_to (nullable (optional (z_string [Matches quantity_regex msg_used_quantity_format])))
        (JStr (js ''0.0''))) \<in> set (createItemShape isDatetime)"
  "(js ''locationId'', nullable (optional (z_number [IsInt, Positive]))) \<in> set (createItemShape isDatetime)"
  "(js ''price'', nullable (optional (z_string [Matches price_regex msg_price_format])))
     \<in> set (createItemShape isDatetime)"
  "(js ''extraInfo'', optional (z_record jsonValueSchema)) \<in> set (createItemShape isDatetime)"
  by (simp_all add: createItemShape_def)

lemma opt_trim_string_field:
  "v = JNull \<or> v = JUndefined \<or> (\<exists>s. v = JStr s) \<Longrightarrow> \<exists>t. opt_trim v = Returns t"
  by (auto simp: opt_trim_def trim_call_def)

lemma create_data_valid:
  assumes valid: "createItemSchema isDatetime form = Inr data"
  shows "\<exists>s d. get form (js ''name'') = JStr s \<and> create_data data = Returns d
           \<and> get d (js ''name'') = JStr (trim s)
           \<and> get d (js ''usedQuantity'') = get data (js ''usedQuantity'')
           \<and> get d (js ''locationId'') = nullish (get data (js ''locationId'')) JUndefined
           \<and> get d (js ''extraInfo'') = get data (js ''extraInfo'')"
proof -
  obtain s where name: "get form (js ''name'') = JStr s" "get data (js ''name'') = JStr s"
    using z_string_min1 [OF create_field [OF valid in_shape(1)]] by auto
  from create_field [OF valid in_shape(2)] obtain t1
    where source: "opt_trim (get data (js ''source'')) = Returns t1"
    by (metis string_field_ok opt_trim_string_field)
  from create_field [OF valid in_shape(5)] obtain t2
    where unit: "opt_trim (get data (js ''unit'')) = Returns t2"
    by (metis string_field_ok opt_trim_string_field)
  show ?thesis
    using name source unit
    by (simp add: create_data_def bind_def trim_call_def get_JObj)
qed

lemma post_route_calls:
  assumes "createItemSchema isDatetime form = Inr data" and "create_data data = Returns d"
  shows "fst (post_route isDatetime prisma form) = [ItemCreate d]"
  using assms
  by (simp add: post_route_def zValidator_calls post_handler_def try_catch_def bind_io_def
        lift_def await_def unit_io_def split: prod.splits outcome.splits)

lemma get_obj_set: "get (obj_set (JObj kvs) k v) k' = (if k' = k then v else get (JObj kvs) k')"
  by (simp add: get_obj_set_same get_obj_set_other)

lemma decimal_field_rejects:
  assumes "v \<noteq> JUndefined" and "v \<noteq> JNull" and "\<forall>s. v = JStr s \<longrightarrow> \<not> p s"
  shows "\<exists>msg. nullable (optional (z_string [Matches p m])) v = Inl [Issue [] msg]"
  using assms
  by (cases v) (auto simp: nullable_def optional_def z_string_matches invalid_type_def)

lemma rejected_field:
  assumes m: "(k, s) \<in> set sh" and bad: "s (get form k) = Inl [Issue [] msg]"
    and present: "get form k \<noteq> JUndefined"
  shows "\<exists>es. z_object sh form = Inl es \<and> Issue [Key k] msg \<in> set es"
proof -
  obtain kvs where form: "form = JObj kvs"
    using get_defined_is_object [OF present] by blast
  from z_object_fails [OF m bad [unfolded form]] show ?thesis
    by (auto simp: form at_path_def)
qed

lemma zValidator_rejects:
  "s form = Inl es \<Longrightarrow> zValidator s form h = ([], Returns (Rejected es))"
  by (simp add: zValidator_def unit_io_def)

lemma default_to_rejects: "v \<noteq> JUndefined \<Longrightarrow> s v = Inl es \<Longrightarrow> default_to s d v = Inl es"
  by (simp add: default_to_def)

lemma optional_defined: "v \<noteq> JUndefined \<Longrightarrow> optional s v = s v"
  by (simp add: optional_def)

lemma used_quantity_default:
  "default_to (nullable (optional (z_string [Matches quantity_regex m]))) (JStr (js ''0.0'')) JUndefined
     = Inr (JStr (js ''0.0''))"
  by (simp add: schema_eval value_eval)

section \<open>Facts about the update set\<close>

lemma assign_if_defined_cases:
  assumes "assign_if_defined data k rhs (JObj kvs) = Returns u"
  shows "get data k = JUndefined \<and> u = JObj kvs
         \<or> get data k \<noteq> JUndefined \<and> (\<exists>v. rhs (get data k) = Returns v \<and> u = obj_set (JObj kvs) k v)"
  using assms
  by (auto simp: assign_if_defined_def bind_def split: if_splits outcome.splits)

lemma assign_lines_Cons:
  assumes "assign_lines data ((k, rhs) # rest) (JObj kvs) = Returns u"
  obtains kvs1 where "assign_if_defined data k rhs (JObj kvs) = Returns (JObj kvs1)"
    and "assign_lines data rest (JObj kvs1) = Returns u"
proof -
  from assms obtain u1 where 1: "assign_if_defined data k rhs (JObj kvs) = Returns u1"
    and 2: "assign_lines data rest u1 = Returns u"
    by (auto simp: bind_def split: outcome.splits)
  from assign_if_defined_cases [OF 1] obtain kvs1 where "u1 = JObj kvs1"
    using obj_set_is_object by blast
  with 1 2 that show thesis by blast
qed

lemma assign_lines_keys:
  "assign_lines data lines (JObj kvs) = Returns u \<Longrightarrow>
     keys_of u = keys_of (JObj kvs) \<union> {k \<in> fst ` set lines. get data k \<noteq> JUndefined}"
proof (induction lines arbitrary: kvs)
  case Nil
  then show ?case by simp
next
  case (Cons line lines)
  obtain k rhs where line: "line = (k, rhs)" by (cases line)
  from Cons.prems obtain kvs1
    where 1: "assign_if_defined data k rhs (JObj kvs) = Returns (JObj kvs1)"
      and 2: "assign_lines data lines (JObj kvs1) = Returns u"
    unfolding line by (rule assign_lines_Cons)
  have "keys_of (JObj kvs1) = keys_of (JObj kvs) \<union> (if get data k \<noteq> JUndefined then {k} else {})"
    using assign_if_defined_cases [OF 1] by (auto simp: keys_of_obj_set)
  with Cons.IH [OF 2] show ?case
    by (auto simp: line)
qed

lemma assign_lines_get_outside:
  "assign_lines data lines (JObj kvs) = Returns u \<Longrightarrow> k \<notin> fst ` set lines \<Longrightarrow>
     get u k = get (JObj kvs) k"
proof (induction lines arbitrary: kvs)
  case Nil
  then show ?case by simp
next
  case (Cons line lines)
  obtain k' rhs where line: "line = (k', rhs)" by (cases line)
  from Cons.prems(1) obtain kvs1
    where 1: "assign_if_defined data k' rhs (JObj kvs) = Returns (JObj kvs1)"
      and 2: "assign_lines data lines (JObj kvs1) = Returns u"
    unfolding line by (rule assign_lines_Cons)
  have "k \<noteq> k'" and "k \<notin> fst ` set lines"
    using Cons.prems(2) by (auto simp: line)
  then have "get (JObj kvs1) k = get (JObj kvs) k"
    using assign_if_defined_cases [OF 1] by (auto simp: get_obj_set)
  with Cons.IH [OF 2 \<open>k \<notin> fst ` set lines\<close>] show ?case by simp
qed

lemma assign_lines_get:
  "assign_lines data lines (JObj kvs) = Returns u \<Longrightarrow> distinct (map fst lines) \<Longrightarrow>
     (k, rhs) \<in> set lines \<Longrightarrow> get data k \<noteq> JUndefined \<Longrightarrow> rhs (get data k) = Returns (get u k)"
proof (induction lines arbitrary: kvs)
  case Nil
  then show ?case by simp
next
  case (Cons line lines)
  obtain k' rhs' where line: "line = (k', rhs')" by (cases line)
  from Cons.prems(1) obtain kvs1
    where 1: "assign_if_defined data k' rhs' (JObj kvs) = Returns (JObj kvs1)"
      and 2: "assign_lines data lines (JObj kvs1) = Returns u"
    unfolding line by (rule assign_lines_Cons)
  show ?case
  proof (cases "(k, rhs) = line")
    case True
    then have same: "k' = k" "rhs' = rhs" by (simp_all add: line)
    have out: "k \<notin> fst ` set lines"
      using Cons.prems(2) by (simp add: line same)
    from assign_if_defined_cases [OF 1] Cons.prems(4) obtain v
      where v: "rhs (get data k) = Returns v" "JObj kvs1 = obj_set (JObj kvs) k v"
      by (auto simp: same)
    have "get u k = get (JObj kvs1) k"
      by (rule assign_lines_get_outside [OF 2 out])
    with v show ?thesis
      by (simp add: get_obj_set)
  next
    case False
    with Cons.prems have "(k, rhs) \<in> set lines" and "distinct (map fst lines)"
      by auto
    from Cons.IH [OF 2 this(2) this(1) Cons.prems(4)] show ?thesis .
  qed
qed

lemma assign_lines_returns:
  "(\<And>k rhs. (k, rhs) \<in> set lines \<Longrightarrow> get data k \<noteq> JUndefined \<Longrightarrow> \<exists>v. rhs (get data k) = Returns v)
     \<Longrightarrow> \<exists>u. assign_lines data lines (JObj kvs) = Returns u"
proof (induction lines arbitrary: kvs)
  case Nil
  then show ?case by simp
next
  case (Cons line lines)
  obtain k rhs where line: "line = (k, rhs)" by (cases line)
  have "\<exists>kvs1. assign_if_defined data k rhs (JObj kvs) = Returns (JObj kvs1)"
  proof (cases "get data k = JUndefined")
    case True
    then show ?thesis by (simp add: assign_if_defined_def)
  next
    case False
    with Cons.prems [of k rhs] obtain v where "rhs (get data k) = Returns v"
      by (auto simp: line)
    with False show ?thesis
      using obj_set_is_object [of kvs k v] by (auto simp: assign_if_defined_def bind_def)
  qed
  then obtain kvs1 where 1: "assign_if_defined data k rhs (JObj kvs) = Returns (JObj kvs1)"
    by blast
  have "\<exists>u. assign_lines data lines (JObj kvs1) = Returns u"
    by (rule Cons.IH) (use Cons.prems in auto)
  with 1 show ?case
    by (auto simp: line bind_def)
qed

lemma update_lines_distinct: "distinct (map fst update_lines)"
  by (simp add: update_lines_def)

lemma update_lines_keys:
  "fst ` set update_lines = {js ''name'', js ''source'', js ''quantity'', js ''unit'', js ''usedQuantity'',
      js ''productionDate'', js ''expiryDate'', js ''locationId'', js ''price'', js ''extraInfo''}"
  by (simp add: update_lines_def)

lemma update_data_keys:
  assumes "update_data data = Returns u"
  shows "keys_of u = {k \<in> {js ''name'', js ''source'', js ''quantity'', js ''unit'', js ''usedQuantity'',
      js ''productionDate'', js ''expiryDate'', js ''locationId'', js ''price'', js ''extraInfo''}.
      get data k \<noteq> JUndefined}"
  using assign_lines_keys [OF assms [unfolded update_data_def]]
  by (simp add: update_lines_keys keys_of_def)

lemma trim_or_null_string_field:
  "v = JNull \<or> v = JUndefined \<or> (\<exists>s. v = JStr s) \<Longrightarrow> \<exists>t. trim_or_null v = Returns t"
  by (auto simp: trim_or_null_def opt_trim_def trim_call_def bind_def)

lemma update_data_valid:
  assumes valid: "updateItemSchema isDatetime form = Inr data"
  shows "\<exists>u. update_data data = Returns u"
  unfolding update_data_def
proof (rule assign_lines_returns)
  fix k rhs
  assume m: "(k, rhs) \<in> set update_lines" and "get data k \<noteq> JUndefined"
  have name: "\<exists>t. trim_or_null (get data (js ''name'')) = Returns t"
    using update_field [OF valid in_shape(1)]
    by (auto dest!: optional_ok z_string_ok intro!: trim_or_null_string_field)
  have source: "\<exists>t. trim_or_null (get data (js ''source'')) = Returns t"
    using update_field [OF valid in_shape(2)]
    by (auto dest!: optional_ok string_field_ok intro!: trim_or_null_string_field)
  have unit: "\<exists>t. trim_or_null (get data (js ''unit'')) = Returns t"
    using update_field [OF valid in_shape(5)]
    by (auto dest!: optional_ok string_field_ok intro!: trim_or_null_string_field)
  from m consider "k = js ''name''" "rhs = trim_or_null" | "k = js ''source''" "rhs = trim_or_null"
    | "k = js ''unit''" "rhs = trim_or_null" | "rhs = as_is" | "rhs = date_or_null" | "rhs = or_null"
    by (auto simp: update_lines_def)
  then show "\<exists>v. rhs (get data k) = Returns v"
    using name source unit
    by cases (simp_all add: as_is_def date_or_null_def or_null_def)
qed

lemma put_route_calls:
  assumes "updateItemSchema isDatetime form = Inr data" and "update_data data = Returns u"
    and "\<not> (isNaN (Number idParam) \<or> le_zero (Number idParam))"
  shows "fst (put_route isDatetime prisma idParam form) = [ItemUpdate (Number idParam) u]"
  using assms
  by (simp add: put_route_def zValidator_calls put_handler_def try_catch_def bind_io_def
        lift_def await_def unit_io_def Let_def split: prod.splits outcome.splits)

section \<open>The runs of the handlers\<close>

lemma is_envelope_success: "is_envelope (success_envelope d st)"
  by (simp add: is_envelope_def get_def)

lemma is_envelope_error: "is_envelope (error_envelope m st)"
  by (simp add: is_envelope_def get_def)

lemma get_handler_run:
  "get_handler prisma = ([ItemFindMany],
     Returns (case prisma ItemFindMany of
                Returns allItems \<Rightarrow> success_envelope allItems 200
              | Throws e \<Rightarrow> error_envelope msg_list_failed 500))"
  by (cases "prisma ItemFindMany") (simp_all add: get_handler_def io_eval)

lemma post_handler_run:
  "post_handler prisma data = (case create_data data of
       Throws e \<Rightarrow> ([], Returns (error_envelope msg_create_failed 500))
     | Returns d \<Rightarrow> ([ItemCreate d],
         Returns (case prisma (ItemCreate d) of
                    Returns newItem \<Rightarrow> success_envelope newItem 201
                  | Throws e \<Rightarrow> error_envelope msg_create_failed 500)))"
proof (cases "create_data data")
  case (Returns d)
  then show ?thesis
    by (cases "prisma (ItemCreate d)") (simp_all add: post_handler_def io_eval)
next
  case (Throws e)
  then show ?thesis
    by (simp add: post_handler_def io_eval)
qed

lemma put_handler_run:
  "put_handler prisma idParam data =
     (if isNaN (Number idParam) \<or> le_zero (Number idParam)
      then ([], Returns (error_envelope msg_invalid_id 400))
      else case update_data data of
             Throws e \<Rightarrow> ([], Throws e)
           | Returns u \<Rightarrow> ([ItemUpdate (Number idParam) u],
               Returns (case prisma (ItemUpdate (Number idParam) u) of
                          Returns updatedItem \<Rightarrow> success_envelope updatedItem 200
                        | Throws e \<Rightarrow> if is_not_found e then error_envelope msg_not_found 404
                                      else error_envelope msg_update_failed 500)))"
proof (cases "update_data data")
  case (Returns u)
  then show ?thesis
    by (cases "prisma (ItemUpdate (Number idParam) u)") (simp_all add: put_handler_def io_eval Let_def)
next
  case (Throws e)
  then show ?thesis
    by (simp add: put_handler_def io_eval Let_def)
qed

lemma delete_handler_run:
  "delete_handler prisma idParam =
     (if isNaN (Number idParam) \<or> le_zero (Number idParam)
      then ([], Returns (error_envelope msg_invalid_id 400))
      else ([ItemDelete (Number idParam)],
            Returns (case prisma (ItemDelete (Number idParam)) of
                       Returns x \<Rightarrow> success_envelope (JObj [(js ''message'', JStr msg_deleted)]) 200
                     | Throws e \<Rightarrow> if is_not_found e then error_envelope msg_not_found 404
                                   else error_envelope msg_delete_failed 500)))"
  by (cases "prisma (ItemDelete (Number idParam))") (simp_all add: delete_handler_def io_eval Let_def)

lemma zValidator_returns:
  assumes "\<And>data. s form = Inr data \<Longrightarrow> \<exists>cs r. h data = (cs, Returns r)"
  shows "\<exists>rep. snd (zValidator s form h) = Returns rep"
proof (cases "s form")
  case (Inl es)
  then show ?thesis by (simp add: zValidator_def unit_io_def)
next
  case (Inr data)
  with assms obtain cs r where "h data = (cs, Returns r)" by blast
  with Inr show ?thesis by (simp add: zValidator_def map_io_def)
qed

lemma get_handler_envelope:
  "\<exists>r. get_handler prisma = ([ItemFindMany], Returns r) \<and> is_envelope r
     \<and> (\<forall>e. prisma ItemFindMany = Throws e \<longrightarrow> r = error_envelope msg_list_failed 500)"
  by (cases "prisma ItemFindMany")
     (simp_all add: get_handler_run is_envelope_success is_envelope_error)

lemma post_handler_envelope:
  "\<exists>cs r. post_handler prisma data = (cs, Returns r) \<and> is_envelope r
     \<and> (\<forall>c e. c \<in> set cs \<and> prisma c = Throws e \<longrightarrow> r = error_envelope msg_create_failed 500)"
proof (cases "create_data data")
  case (Returns d)
  then show ?thesis
    by (cases "prisma (ItemCreate d)")
       (simp_all add: post_handler_run is_envelope_success is_envelope_error)
next
  case (Throws e)
  then show ?thesis
    by (simp add: post_handler_run is_envelope_error)
qed

lemma put_handler_envelope:
  assumes "update_data data = Returns u"
  shows "\<exists>cs r. put_handler prisma idParam data = (cs, Returns r) \<and> is_envelope r
     \<and> (\<forall>c e. c \<in> set cs \<and> prisma c = Throws e \<and> \<not> is_not_found e
           \<longrightarrow> r = error_envelope msg_update_failed 500)"
proof (cases "isNaN (Number idParam) \<or> le_zero (Number idParam)")
  case True
  then show ?thesis
    by (simp add: put_handler_run is_envelope_error)
next
  case False
  then show ?thesis
    using assms
    by (cases "prisma (ItemUpdate (Number idParam) u)")
       (simp_all add: put_handler_run is_envelope_success is_envelope_error)
qed

lemma delete_handler_envelope:
  "\<exists>cs r. delete_handler prisma idParam = (cs, Returns r) \<and> is_envelope r
     \<and> (\<forall>c e. c \<in> set cs \<and> prisma c = Throws e \<and> \<not> is_not_found e
           \<longrightarrow> r = error_envelope msg_delete_failed 500)"
proof (cases "isNaN (Number idParam) \<or> le_zero (Number idParam)")
  case True
  then show ?thesis
    by (simp add: delete_handler_run is_envelope_error)
next
  case False
  then show ?thesis
    by (cases "prisma (ItemDelete (Number idParam))")
       (simp_all add: delete_handler_run is_envelope_success is_envelope_error)
qed

lemma in_update_lines: "(js ''locationId'', or_null) \<in> set update_lines"
  by (simp add: update_lines_def)

lemma usedQuantity_line: "(js ''usedQuantity'', as_is) \<in> set update_lines"
  by (simp add: update_lines_def)

lemma create_data_cong:
  assumes "\<And>k. k \<noteq> js ''locationId'' \<Longrightarrow> get data2 k = get data1 k"
    and "nullish (get data2 (js ''locationId'')) JUndefined = nullish (get data1 (js ''locationId'')) JUndefined"
  shows "create_data data2 = create_data data1"
  using assms(2) by (simp add: create_data_def assms(1))

section \<open>The language of the decimal patterns\<close>

text \<open>
  \<open>decimal_regex n\<close> holds of exactly the strings of one or more digits, optionally
  followed by a dot and one to \<open>n\<close> digits.
\<close>

lemma decimal_regex_language:
  "decimal_regex n s \<longleftrightarrow>
     (\<exists>ds fs. ds \<noteq> [] \<and> list_all isDigit ds \<and>
        (s = ds \<or> s = ds @ 0x2E # fs \<and> 1 \<le> length fs \<and> length fs \<le> n \<and> list_all isDigit fs))"
proof
  assume m: "decimal_regex n s"
  let ?ds = "takeWhile isDigit s" and ?rest = "dropWhile isDigit s"
  have s: "s = ?ds @ ?rest" by simp
  have ds: "?ds \<noteq> []" "list_all isDigit ?ds"
    using m by (auto simp: decimal_regex_def Let_def list_all_iff dest: set_takeWhileD)
  show "\<exists>ds fs. ds \<noteq> [] \<and> list_all isDigit ds \<and>
        (s = ds \<or> s = ds @ 0x2E # fs \<and> 1 \<le> length fs \<and> length fs \<le> n \<and> list_all isDigit fs)"
  proof (cases "?rest = []")
    case True
    with s have "s = ?ds" by (metis append_Nil2)
    with ds show ?thesis by blast
  next
    case False
    then have r: "?rest = hd ?rest # tl ?rest" by simp
    from m False have "hd ?rest = 0x2E" "1 \<le> length (tl ?rest)" "length (tl ?rest) \<le> n"
      "list_all isDigit (tl ?rest)"
      by (auto simp: decimal_regex_def Let_def)
    moreover from s r this(1) have "s = ?ds @ 0x2E # tl ?rest" by metis
    ultimately show ?thesis using ds by blast
  qed
next
  assume "\<exists>ds fs. ds \<noteq> [] \<and> list_all isDigit ds \<and>
        (s = ds \<or> s = ds @ 0x2E # fs \<and> 1 \<le> length fs \<and> length fs \<le> n \<and> list_all isDigit fs)"
  then obtain ds fs where ds: "ds \<noteq> []" "list_all isDigit ds"
    and c: "s = ds \<or> s = ds @ 0x2E # fs \<and> 1 \<le> length fs \<and> length fs \<le> n \<and> list_all isDigit fs"
    by blast
  have nd: "\<not> isDigit 0x2E" by (simp add: isDigit_def)
  from c show "decimal_regex n s"
  proof
    assume e: "s = ds"
    have t: "takeWhile isDigit ds = ds" and d: "dropWhile isDigit ds = []"
      using ds by (simp_all add: list_all_iff)
    show ?thesis
      unfolding decimal_regex_def Let_def e t d using ds(1) by simp
  next
    assume a: "s = ds @ 0x2E # fs \<and> 1 \<le> length fs \<and> length fs \<le> n \<and> list_all isDigit fs"
    have t: "takeWhile isDigit s = ds" and d: "dropWhile isDigit s = 0x2E # fs"
      using a ds nd by (simp_all add: list_all_iff takeWhile_append2 dropWhile_append2)
    show ?thesis
      unfolding decimal_regex_def Let_def t d using a ds(1) by simp
  qed
qed

section \<open>The id guard of Update and Delete\<close>

text \<open>
  C1, as the code has it: Update and Delete convert the id path parameter with
  \<open>Number\<close>. Whenever the result is NaN or not greater than zero (as for \<^verbatim>\<open>0\<close>,
  \<^verbatim>\<open>-1\<close> and a non-numeric segment), the handler returns the 400 envelope with the
  invalid-id message and makes no persistence call. On Update the payload has been
  validated before the handler runs: with such an id no persistence call is made
  for any payload, and a payload that passes validation gets the 400 envelope.
\<close>

theorem invalid_id_is_400:
  "isNaN (Number idParam) \<or> le_zero (Number idParam) \<longrightarrow>
     delete_handler prisma idParam = ([], Returns (error_envelope msg_invalid_id 400))
     \<and> put_handler prisma idParam data = ([], Returns (error_envelope msg_invalid_id 400))
     \<and> fst (put_route isDatetime prisma idParam form) = []
     \<and> (updateItemSchema isDatetime form = Inr data \<longrightarrow>
          put_route isDatetime prisma idParam form
            = ([], Returns (Handled (error_envelope msg_invalid_id 400))))"
proof (intro impI conjI)
  assume bad: "isNaN (Number idParam) \<or> le_zero (Number idParam)"
  show "delete_handler prisma idParam = ([], Returns (error_envelope msg_invalid_id 400))"
    by (rule guard_rejects [OF bad])
  show "put_handler prisma idParam data = ([], Returns (error_envelope msg_invalid_id 400))"
    by (rule guard_rejects [OF bad])
  show "fst (put_route isDatetime prisma idParam form) = []"
    by (simp add: put_route_def zValidator_calls guard_rejects [OF bad] split: sum.splits)
  show "put_route isDatetime prisma idParam form
          = ([], Returns (Handled (error_envelope msg_invalid_id 400)))"
    if "updateItemSchema isDatetime form = Inr data"
    using that by (simp add: put_route_def zValidator_def guard_rejects [OF bad] map_io_def)
qed

text \<open>The ids \<^verbatim>\<open>0\<close>, \<^verbatim>\<open>-1\<close> and \<^verbatim>\<open>abc\<close>, and an Update with id \<^verbatim>\<open>0\<close> and a valid payload.\<close>

theorem invalid_id_is_400_witness:
  "delete_handler one_item_client (js ''0'')
     = ([], Returns (error_envelope msg_invalid_id 400))
   \<and> delete_handler one_item_client (js ''-1'')
     = ([], Returns (error_envelope msg_invalid_id 400))
   \<and> delete_handler one_item_client (js ''abc'')
     = ([], Returns (error_envelope msg_invalid_id 400))
   \<and> put_route utc_datetime one_item_client (js ''0'') (JObj [(js ''price'', JStr (js ''9.99''))])
     = ([], Returns (Handled (error_envelope msg_invalid_id 400)))"
proof -
  have v: "updateItemSchema utc_datetime (JObj [(js ''price'', JStr (js ''9.99''))])
             = Inr (JObj [(js ''usedQuantity'', JStr (js ''0.0'')), (js ''price'', JStr (js ''9.99''))])"
    by (simp add: schema_eval value_eval)
  have "isNaN (Number (js ''0'')) \<or> le_zero (Number (js ''0''))"
    and "isNaN (Number (js ''-1'')) \<or> le_zero (Number (js ''-1''))"
    and "isNaN (Number (js ''abc'')) \<or> le_zero (Number (js ''abc''))"
    by (simp_all add: Number_0 Number_minus_1 Number_abc isNaN_def le_zero_def)
  then show ?thesis
    using invalid_id_is_400 [of "js ''0''" one_item_client
            "JObj [(js ''usedQuantity'', JStr (js ''0.0'')), (js ''price'', JStr (js ''9.99''))]"
            utc_datetime "JObj [(js ''price'', JStr (js ''9.99''))]"]
          invalid_id_is_400 [of "js ''-1''" one_item_client]
          invalid_id_is_400 [of "js ''abc''" one_item_client] v
    by blast
qed

text \<open>
  C1 as stated fails twice. The id \<^verbatim>\<open>1.5\<close> is not an integer, yet it passes the guard
  and Delete calls the persistence client with it. And an Update with id \<^verbatim>\<open>0\<close> and
  a malformed quantity is answered by the validation of the payload, which has run
  first, not by the handler's envelope.
\<close>

theorem invalid_id_counterexample:
  "\<not> isInteger (Number (js ''1.5''))
   \<and> delete_handler one_item_client (js ''1.5'')
       = ([ItemDelete (Fin (3 / 2))], Returns (error_envelope msg_not_found 404))
   \<and> put_route utc_datetime one_item_client (js ''0'') (JObj [(js ''quantity'', JStr (js ''abc''))])
       = ([], Returns (Rejected [Issue [Key (js ''quantity'')] (Custom msg_quantity_format)]))"
  by (simp add: number_eval value_eval io_eval schema_eval route_eval)

section \<open>The extraInfo field on Create\<close>

text \<open>
  C2, as the code has it: the Create schema accepts for \<^verbatim>\<open>extraInfo\<close> every JSON
  object, that is every mapping from strings to JSON values (strings, numbers,
  booleans, null, arrays and mappings, to any depth): a payload the schema accepts
  is still accepted when its \<^verbatim>\<open>extraInfo\<close> is set to any JSON object. When
  \<^verbatim>\<open>extraInfo\<close> is provided on a valid create, it is an object, and the value passed
  to persistence is that value without its keys named \<^verbatim>\<open>__proto__\<close>, which the record
  schema skips at every depth. So a value that has no such key is passed verbatim.
\<close>

theorem extraInfo_object_stored:
  "(createItemSchema isDatetime form = Inr data \<and> is_json (JObj kvs) \<longrightarrow>
      (\<exists>data'. createItemSchema isDatetime (obj_set form (js ''extraInfo'') (JObj kvs)) = Inr data'
         \<and> get data' (js ''extraInfo'') = drop_proto (JObj kvs)))
   \<and> (createItemSchema isDatetime form = Inr data \<and> get form (js ''extraInfo'') \<noteq> JUndefined \<longrightarrow>
      (\<exists>d. fst (post_route isDatetime prisma form) = [ItemCreate d]
         \<and> get d (js ''extraInfo'') = drop_proto (get form (js ''extraInfo''))
         \<and> (\<exists>kvs. get form (js ''extraInfo'') = JObj kvs)))
   \<and> (\<not> has_proto v \<longrightarrow> drop_proto v = v)"
proof (intro conjI impI)
  assume a: "createItemSchema isDatetime form = Inr data \<and> is_json (JObj kvs)"
  then have valid: "createItemSchema isDatetime form = Inr data" and json: "is_json (JObj kvs)"
    by simp_all
  obtain fkvs where form: "form = JObj fkvs"
    using valid by (cases form) (simp_all add: createItemSchema_def z_object_def invalid_type_def)
  let ?form' = "obj_set form (js ''extraInfo'') (JObj kvs)"
  obtain fkvs' where form': "?form' = JObj fkvs'"
    using obj_set_is_object form by blast
  have old: "\<forall>(k, s) \<in> set (createItemShape isDatetime). is_ok (s (get (JObj fkvs) k))"
    using valid z_object_ok_iff [of "createItemShape isDatetime" fkvs]
    by (simp add: createItemSchema_def form is_ok_def)
  have "is_ok (s (get ?form' k))" if m: "(k, s) \<in> set (createItemShape isDatetime)" for k s
  proof (cases "k = js ''extraInfo''")
    case True
    with m have "s = optional (z_record jsonValueSchema)"
      using createItemShape_distinct [of isDatetime] in_shape(9) [of isDatetime]
      by (metis eq_key_imp_eq_value)
    then show ?thesis
      using True json by (simp add: form get_obj_set optional_def z_record_json_accepts is_ok_def)
  next
    case False
    then show ?thesis
      using old m by (auto simp: form get_obj_set)
  qed
  then have "is_ok (createItemSchema isDatetime ?form')"
    using z_object_ok_iff [of "createItemShape isDatetime" fkvs']
    by (auto simp: createItemSchema_def form')
  then obtain data' where d': "createItemSchema isDatetime ?form' = Inr data'"
    by (auto simp: is_ok_iff)
  from create_field [OF d' in_shape(9)] have "get data' (js ''extraInfo'') = drop_proto (JObj kvs)"
    using json by (simp add: form get_obj_set optional_def z_record_json_accepts)
  with d' show "\<exists>data'. createItemSchema isDatetime ?form' = Inr data'
                  \<and> get data' (js ''extraInfo'') = drop_proto (JObj kvs)"
    by blast
next
  assume a: "createItemSchema isDatetime form = Inr data \<and> get form (js ''extraInfo'') \<noteq> JUndefined"
  then have valid: "createItemSchema isDatetime form = Inr data"
    and present: "get form (js ''extraInfo'') \<noteq> JUndefined"
    by simp_all
  from create_field [OF valid in_shape(9)] present
  have "z_record jsonValueSchema (get form (js ''extraInfo'')) = Inr (get data (js ''extraInfo''))"
    by (auto dest: optional_ok)
  then have same: "get data (js ''extraInfo'') = drop_proto (get form (js ''extraInfo''))"
    and obj: "\<exists>kvs. get form (js ''extraInfo'') = JObj kvs"
    by (auto dest: z_record_json_ok)
  from create_data_valid [OF valid] obtain d
    where d: "create_data data = Returns d" "get d (js ''extraInfo'') = get data (js ''extraInfo'')"
    by blast
  show "\<exists>d. fst (post_route isDatetime prisma form) = [ItemCreate d]
          \<and> get d (js ''extraInfo'') = drop_proto (get form (js ''extraInfo''))
          \<and> (\<exists>kvs. get form (js ''extraInfo'') = JObj kvs)"
    using post_route_calls [OF valid d(1)] d(2) same obj by auto
next
  assume "\<not> has_proto v"
  then show "drop_proto v = v"
    by (rule drop_proto_id)
qed

text \<open>
  The nested value \<^verbatim>\<open>{"a": [1, "b", {"c": null, "__proto__": 2}]}\<close> on a payload with a
  name: what is passed to persistence is \<^verbatim>\<open>{"a": [1, "b", {"c": null}]}\<close>, and a second
  pass leaves that value as it is.
\<close>

theorem extraInfo_object_stored_witness:
  "(\<exists>data'. createItemSchema utc_datetime
        (obj_set (JObj [(js ''name'', JStr (js ''milk''))]) (js ''extraInfo'')
           (JObj [(js ''a'', JArr [JNum (Fin 1), JStr (js ''b''),
                     JObj [(js ''c'', JNull), (js ''__proto__'', JNum (Fin 2))]])])) = Inr data'
      \<and> get data' (js ''extraInfo'')
          = JObj [(js ''a'', JArr [JNum (Fin 1), JStr (js ''b''), JObj [(js ''c'', JNull)]])])
   \<and> (\<exists>d. fst (post_route utc_datetime one_item_client
          (JObj [(js ''name'', JStr (js ''milk'')),
                 (js ''extraInfo'',
                    JObj [(js ''a'', JArr [JNum (Fin 1), JStr (js ''b''),
                            JObj [(js ''c'', JNull), (js ''__proto__'', JNum (Fin 2))]])])]))
          = [ItemCreate d]
        \<and> get d (js ''extraInfo'')
            = JObj [(js ''a'', JArr [JNum (Fin 1), JStr (js ''b''), JObj [(js ''c'', JNull)]])])
   \<and> drop_proto (JObj [(js ''a'', JArr [JNum (Fin 1), JStr (js ''b''), JObj [(js ''c'', JNull)]])])
       = JObj [(js ''a'', JArr [JNum (Fin 1), JStr (js ''b''), JObj [(js ''c'', JNull)]])]"
proof -
  let ?kvs = "[(js ''a'', JArr [JNum (Fin 1), JStr (js ''b''),
                  JObj [(js ''c'', JNull), (js ''__proto__'', JNum (Fin 2))]])]"
  let ?y = "JObj [(js ''a'', JArr [JNum (Fin 1), JStr (js ''b''), JObj [(js ''c'', JNull)]])]"
  let ?form = "JObj [(js ''name'', JStr (js ''milk''))]"
  let ?form2 = "JObj [(js ''name'', JStr (js ''milk'')), (js ''extraInfo'', JObj ?kvs)]"
  have json: "is_json (JObj ?kvs)"
    by (simp add: is_json.simps elems_def entries_def)
  have dropped: "drop_proto (JObj ?kvs) = ?y"
    by (simp add: drop_proto_JObj drop_proto_JArr drop_proto_other)
  have clean: "\<not> has_proto ?y"
    by (simp add: has_proto_JObj has_proto_JArr has_proto.simps [of "JNum n" for n]
          has_proto.simps [of "JStr s" for s] has_proto.simps [of JNull])
  have v1: "createItemSchema utc_datetime ?form
              = Inr (JObj [(js ''name'', JStr (js ''milk'')), (js ''usedQuantity'', JStr (js ''0.0''))])"
    by (simp add: schema_eval value_eval)
  have v2: "createItemSchema utc_datetime ?form2
              = Inr (JObj [(js ''name'', JStr (js ''milk'')), (js ''usedQuantity'', JStr (js ''0.0'')),
                           (js ''extraInfo'', ?y)])"
    by (simp add: schema_eval value_eval)
  have p: "get ?form2 (js ''extraInfo'') = JObj ?kvs"
    by (simp add: get_def)
  from extraInfo_object_stored [of utc_datetime ?form _ ?kvs] v1 json
  have a: "\<exists>data'. createItemSchema utc_datetime (obj_set ?form (js ''extraInfo'') (JObj ?kvs)) = Inr data'
             \<and> get data' (js ''extraInfo'') = ?y"
    unfolding dropped by blast
  have h: "createItemSchema utc_datetime ?form2
              = Inr (JObj [(js ''name'', JStr (js ''milk'')), (js ''usedQuantity'', JStr (js ''0.0'')),
                           (js ''extraInfo'', ?y)])
           \<and> get ?form2 (js ''extraInfo'') \<noteq> JUndefined"
    using v2 p by simp
  from extraInfo_object_stored
         [of utc_datetime ?form2 _ _ one_item_client, THEN conjunct2, THEN conjunct1, THEN mp, OF h]
  obtain d where calls: "fst (post_route utc_datetime one_item_client ?form2) = [ItemCreate d]"
    and stored: "get d (js ''extraInfo'') = drop_proto (get ?form2 (js ''extraInfo''))"
    by (elim exE conjE)
  have b: "\<exists>d. fst (post_route utc_datetime one_item_client ?form2) = [ItemCreate d]
             \<and> get d (js ''extraInfo'') = ?y"
  proof (intro exI conjI)
    show "fst (post_route utc_datetime one_item_client ?form2) = [ItemCreate d]"
      by (rule calls)
    show "get d (js ''extraInfo'') = ?y"
      using stored by (simp only: p dropped)
  qed
  from extraInfo_object_stored [of _ _ _ _ _ ?y] clean
  have c: "drop_proto ?y = ?y"
    by blast
  from a b c show ?thesis
    by (intro conjI)
qed

text \<open>
  C2 as stated fails. A string, an array and null are JSON values, and the schema
  rejects each of them as \<^verbatim>\<open>extraInfo\<close>. And the object \<^verbatim>\<open>{"__proto__": 1, "a": 2}\<close> is
  accepted and then passed to persistence as \<^verbatim>\<open>{"a": 2}\<close>, not verbatim.
\<close>

theorem extraInfo_counterexample:
  "is_json (JStr (js ''note'')) \<and> is_json (JArr [JNum (Fin 1)]) \<and> is_json JNull
   \<and> createItemSchema utc_datetime
        (JObj [(js ''name'', JStr (js ''milk'')), (js ''extraInfo'', JStr (js ''note''))])
       = Inl [Issue [Key (js ''extraInfo'')] Builtin]
   \<and> createItemSchema utc_datetime
        (JObj [(js ''name'', JStr (js ''milk'')), (js ''extraInfo'', JArr [JNum (Fin 1)])])
       = Inl [Issue [Key (js ''extraInfo'')] Builtin]
   \<and> createItemSchema utc_datetime
        (JObj [(js ''name'', JStr (js ''milk'')), (js ''extraInfo'', JNull)])
       = Inl [Issue [Key (js ''extraInfo'')] Builtin]
   \<and> is_json (JObj [(js ''__proto__'', JNum (Fin 1)), (js ''a'', JNum (Fin 2))])
   \<and> fst (post_route utc_datetime one_item_client
        (JObj [(js ''name'', JStr (js ''milk'')),
               (js ''extraInfo'', JObj [(js ''__proto__'', JNum (Fin 1)), (js ''a'', JNum (Fin 2))])]))
       = [ItemCreate (JObj
            [(js ''name'', JStr (js ''milk'')), (js ''source'', JNull), (js ''quantity'', JNull),
             (js ''unit'', JNull), (js ''usedQuantity'', JStr (js ''0.0'')),
             (js ''productionDate'', JNull), (js ''expiryDate'', JNull),
             (js ''locationId'', JUndefined), (js ''price'', JNull),
             (js ''extraInfo'', JObj [(js ''a'', JNum (Fin 2))])])]"
  by (simp add: is_json.simps elems_def entries_def schema_eval value_eval io_eval route_eval)

section \<open>The update set\<close>

text \<open>
  C3 says that the update set of Update holds exactly the keys present in the
  payload, so that a field absent from the payload is left untouched in storage.
  The Update schema is \<^verbatim>\<open>createItemSchema.partial()\<close>, and the default of \<^verbatim>\<open>usedQuantity\<close>
  survives \<^verbatim>\<open>.partial()\<close>: whenever the payload omits \<^verbatim>\<open>usedQuantity\<close>, the validated
  data carries \<^verbatim>\<open>usedQuantity: "0.0"\<close>, the handler finds the key defined, and the
  update set passed to persistence resets the used quantity of the item to
  \<^verbatim>\<open>0.0\<close>. And \<^verbatim>\<open>category\<close>, a key of the schema, is never in the update set.
\<close>

theorem omitted_usedQuantity_is_reset:
  "updateItemSchema isDatetime form = Inr data \<and> get form (js ''usedQuantity'') = JUndefined
     \<and> \<not> (isNaN (Number idParam) \<or> le_zero (Number idParam)) \<longrightarrow>
   (\<exists>updateData.
      fst (put_route isDatetime prisma idParam form) = [ItemUpdate (Number idParam) updateData]
      \<and> js ''usedQuantity'' \<in> keys_of updateData
      \<and> get updateData (js ''usedQuantity'') = JStr (js ''0.0'')
      \<and> js ''category'' \<notin> keys_of updateData)"
proof
  assume a: "updateItemSchema isDatetime form = Inr data \<and> get form (js ''usedQuantity'') = JUndefined
     \<and> \<not> (isNaN (Number idParam) \<or> le_zero (Number idParam))"
  then have valid: "updateItemSchema isDatetime form = Inr data"
    and omitted: "get form (js ''usedQuantity'') = JUndefined"
    and ok: "\<not> (isNaN (Number idParam) \<or> le_zero (Number idParam))"
    by simp_all
  from update_field [OF valid in_shape(6)] omitted
  have used: "get data (js ''usedQuantity'') = JStr (js ''0.0'')"
    by (simp add: optional_def used_quantity_default)
  from update_data_valid [OF valid] obtain u where u: "update_data data = Returns u" ..
  have "as_is (get data (js ''usedQuantity'')) = Returns (get u (js ''usedQuantity''))"
    using u used
    by (intro assign_lines_get [OF _ update_lines_distinct usedQuantity_line])
       (simp_all add: update_data_def)
  then have 1: "get u (js ''usedQuantity'') = JStr (js ''0.0'')"
    using used by (simp add: as_is_def)
  have 2: "js ''usedQuantity'' \<in> keys_of u" and 3: "js ''category'' \<notin> keys_of u"
    using update_data_keys [OF u] used by simp_all
  from put_route_calls [OF valid u ok, of prisma] 1 2 3
  show "\<exists>updateData.
      fst (put_route isDatetime prisma idParam form) = [ItemUpdate (Number idParam) updateData]
      \<and> js ''usedQuantity'' \<in> keys_of updateData
      \<and> get updateData (js ''usedQuantity'') = JStr (js ''0.0'')
      \<and> js ''category'' \<notin> keys_of updateData"
    by blast
qed

text \<open>
  An update of item 1 whose payload contains only \<^verbatim>\<open>price\<close>, and one whose payload
  contains only \<^verbatim>\<open>category\<close>: the first asks persistence to set the price and to
  reset the used quantity, the second to reset the used quantity and nothing else.
\<close>

theorem omitted_usedQuantity_is_reset_witness:
  "(\<exists>updateData.
      fst (put_route utc_datetime one_item_client (js ''1'') (JObj [(js ''price'', JStr (js ''9.99''))]))
        = [ItemUpdate (Fin 1) updateData]
      \<and> js ''usedQuantity'' \<in> keys_of updateData
      \<and> get updateData (js ''usedQuantity'') = JStr (js ''0.0''))
   \<and> put_route utc_datetime one_item_client (js ''1'') (JObj [(js ''price'', JStr (js ''9.99''))])
       = ([ItemUpdate (Fin 1)
             (JObj [(js ''usedQuantity'', JStr (js ''0.0'')), (js ''price'', JStr (js ''9.99''))])],
          Returns (Handled (success_envelope
             (JObj [(js ''usedQuantity'', JStr (js ''0.0'')), (js ''price'', JStr (js ''9.99''))]) 200)))
   \<and> put_route utc_datetime one_item_client (js ''1'') (JObj [(js ''category'', JStr (js ''food''))])
       = ([ItemUpdate (Fin 1) (JObj [(js ''usedQuantity'', JStr (js ''0.0''))])],
          Returns (Handled (success_envelope (JObj [(js ''usedQuantity'', JStr (js ''0.0''))]) 200)))"
proof -
  let ?form = "JObj [(js ''price'', JStr (js ''9.99''))]"
  let ?valid = "JObj [(js ''usedQuantity'', JStr (js ''0.0'')), (js ''price'', JStr (js ''9.99''))]"
  have v: "updateItemSchema utc_datetime ?form = Inr ?valid"
    by (simp add: schema_eval value_eval)
  have o: "get ?form (js ''usedQuantity'') = JUndefined"
    by (simp add: get_def)
  have i: "\<not> (isNaN (Number (js ''1'')) \<or> le_zero (Number (js ''1'')))"
    by (simp add: Number_1 isNaN_def le_zero_def)
  have h: "updateItemSchema utc_datetime ?form = Inr ?valid \<and> get ?form (js ''usedQuantity'') = JUndefined
           \<and> \<not> (isNaN (Number (js ''1'')) \<or> le_zero (Number (js ''1'')))"
    using v o i by (intro conjI)
  from omitted_usedQuantity_is_reset
         [of utc_datetime ?form ?valid "js ''1''" one_item_client, THEN mp, OF h]
  obtain u where calls: "fst (put_route utc_datetime one_item_client (js ''1'') ?form)
                  = [ItemUpdate (Number (js ''1'')) u]"
    and key: "js ''usedQuantity'' \<in> keys_of u"
    and used: "get u (js ''usedQuantity'') = JStr (js ''0.0'')"
    by (elim exE conjE)
  have a: "\<exists>updateData.
      fst (put_route utc_datetime one_item_client (js ''1'') ?form) = [ItemUpdate (Fin 1) updateData]
      \<and> js ''usedQuantity'' \<in> keys_of updateData
      \<and> get updateData (js ''usedQuantity'') = JStr (js ''0.0'')"
  proof (intro exI conjI)
    show "fst (put_route utc_datetime one_item_client (js ''1'') ?form) = [ItemUpdate (Fin 1) u]"
      using calls by (simp only: Number_1)
    show "js ''usedQuantity'' \<in> keys_of u"
      by (rule key)
    show "get u (js ''usedQuantity'') = JStr (js ''0.0'')"
      by (rule used)
  qed
  have b: "put_route utc_datetime one_item_client (js ''1'') ?form
       = ([ItemUpdate (Fin 1) ?valid], Returns (Handled (success_envelope ?valid 200)))"
    by (simp add: number_eval value_eval io_eval schema_eval route_eval)
  have c: "put_route utc_datetime one_item_client (js ''1'') (JObj [(js ''category'', JStr (js ''food''))])
       = ([ItemUpdate (Fin 1) (JObj [(js ''usedQuantity'', JStr (js ''0.0''))])],
          Returns (Handled (success_envelope (JObj [(js ''usedQuantity'', JStr (js ''0.0''))]) 200)))"
    by (simp add: number_eval value_eval io_eval schema_eval route_eval)
  from a b c show ?thesis
    by (intro conjI)
qed

section \<open>Malformed decimal strings\<close>

text \<open>
  C4: on Create and on Update, a payload in which \<^verbatim>\<open>quantity\<close> is present (neither
  undefined nor null, the two values the schema takes as absent) and is not a string
  matching \<^verbatim>\<open>^\\d+(\\.\\d{1,3})?$\<close> is rejected by the validation with an issue at that
  field, and no persistence call is made. The same holds for \<^verbatim>\<open>usedQuantity\<close> with
  the same pattern and for \<^verbatim>\<open>price\<close> with \<^verbatim>\<open>^\\d+(\\.\\d{1,2})?$\<close>.
\<close>

theorem malformed_decimal_rejected:
  "((k = js ''quantity'' \<or> k = js ''usedQuantity'') \<and> n = 3 \<or> k = js ''price'' \<and> n = 2)
   \<and> get form k \<noteq> JUndefined \<and> get form k \<noteq> JNull
   \<and> (\<forall>s. get form k = JStr s \<longrightarrow> \<not> decimal_regex n s)
   \<longrightarrow> (\<exists>es m. post_route isDatetime prisma form = ([], Returns (Rejected es))
                \<and> Issue [Key k] m \<in> set es)
     \<and> (\<exists>es m. put_route isDatetime prisma idParam form = ([], Returns (Rejected es))
                \<and> Issue [Key k] m \<in> set es)"
proof (intro impI)
  assume a: "((k = js ''quantity'' \<or> k = js ''usedQuantity'') \<and> n = 3 \<or> k = js ''price'' \<and> n = 2)
     \<and> get form k \<noteq> JUndefined \<and> get form k \<noteq> JNull
     \<and> (\<forall>s. get form k = JStr s \<longrightarrow> \<not> decimal_regex n s)"
  then have present: "get form k \<noteq> JUndefined" and nonnull: "get form k \<noteq> JNull"
    by simp_all
  have "\<exists>s msg. (k, s) \<in> set (createItemShape isDatetime) \<and> s (get form k) = Inl [Issue [] msg]"
  proof -
    from a consider "k = js ''quantity''" "n = 3" | "k = js ''usedQuantity''" "n = 3"
      | "k = js ''price''" "n = 2"
      by auto
    then show ?thesis
    proof cases
      case 1
      with a have "\<forall>s. get form k = JStr s \<longrightarrow> \<not> quantity_regex s"
        by (simp add: quantity_regex_def)
      from decimal_field_rejects [OF present nonnull this, of msg_quantity_format]
      show ?thesis
        using 1 in_shape(4) [of isDatetime] by blast
    next
      case 2
      with a have "\<forall>s. get form k = JStr s \<longrightarrow> \<not> quantity_regex s"
        by (simp add: quantity_regex_def)
      from decimal_field_rejects [OF present nonnull this, of msg_used_quantity_format]
      obtain msg where "default_to
          (nullable (optional (z_string [Matches quantity_regex msg_used_quantity_format])))
          (JStr (js ''0.0'')) (get form k) = Inl [Issue [] msg]"
        using present by (auto simp: default_to_rejects)
      then show ?thesis
        using 2 in_shape(6) [of isDatetime] by blast
    next
      case 3
      with a have "\<forall>s. get form k = JStr s \<longrightarrow> \<not> price_regex s"
        by (simp add: price_regex_def)
      from decimal_field_rejects [OF present nonnull this, of msg_price_format]
      show ?thesis
        using 3 in_shape(8) [of isDatetime] by blast
    qed
  qed
  then obtain s msg where s: "(k, s) \<in> set (createItemShape isDatetime)"
    and bad1: "s (get form k) = Inl [Issue [] msg]"
    by blast
  have bad2: "optional s (get form k) = Inl [Issue [] msg]"
    using bad1 present by (simp add: optional_defined)
  from rejected_field [OF s bad1 present] obtain es
    where c: "createItemSchema isDatetime form = Inl es" "Issue [Key k] msg \<in> set es"
    by (auto simp: createItemSchema_def)
  from rejected_field [OF partial_member [OF s] bad2 present] obtain es'
    where u: "updateItemSchema isDatetime form = Inl es'" "Issue [Key k] msg \<in> set es'"
    by (auto simp: updateItemSchema_def extend_empty)
  show "(\<exists>es m. post_route isDatetime prisma form = ([], Returns (Rejected es))
                \<and> Issue [Key k] m \<in> set es)
     \<and> (\<exists>es m. put_route isDatetime prisma idParam form = ([], Returns (Rejected es))
                \<and> Issue [Key k] m \<in> set es)"
    using c u by (auto simp: post_route_def put_route_def zValidator_rejects)
qed

text \<open>
  The quantity \<^verbatim>\<open>12.3456\<close> on Create and on Update, and the price \<^verbatim>\<open>abc\<close> on Create.
\<close>

theorem malformed_decimal_rejected_witness:
  "(\<exists>es m. post_route utc_datetime one_item_client
       (JObj [(js ''name'', JStr (js ''milk'')), (js ''quantity'', JStr (js ''12.3456''))])
       = ([], Returns (Rejected es)) \<and> Issue [Key (js ''quantity'')] m \<in> set es)
   \<and> (\<exists>es m. put_route utc_datetime one_item_client (js ''1'')
       (JObj [(js ''name'', JStr (js ''milk'')), (js ''quantity'', JStr (js ''12.3456''))])
       = ([], Returns (Rejected es)) \<and> Issue [Key (js ''quantity'')] m \<in> set es)
   \<and> (\<exists>es m. post_route utc_datetime one_item_client
       (JObj [(js ''name'', JStr (js ''milk'')), (js ''price'', JStr (js ''abc''))])
       = ([], Returns (Rejected es)) \<and> Issue [Key (js ''price'')] m \<in> set es)"
proof -
  let ?f1 = "JObj [(js ''name'', JStr (js ''milk'')), (js ''quantity'', JStr (js ''12.3456''))]"
  let ?f2 = "JObj [(js ''name'', JStr (js ''milk'')), (js ''price'', JStr (js ''abc''))]"
  have h1: "get ?f1 (js ''quantity'') \<noteq> JUndefined \<and> get ?f1 (js ''quantity'') \<noteq> JNull
            \<and> (\<forall>s. get ?f1 (js ''quantity'') = JStr s \<longrightarrow> \<not> decimal_regex 3 s)"
    by (auto simp: get_def decimal_regex_def js_def isDigit_def)
  have h2: "get ?f2 (js ''price'') \<noteq> JUndefined \<and> get ?f2 (js ''price'') \<noteq> JNull
            \<and> (\<forall>s. get ?f2 (js ''price'') = JStr s \<longrightarrow> \<not> decimal_regex 2 s)"
    by (auto simp: get_def decimal_regex_def js_def isDigit_def)
  show ?thesis
    using malformed_decimal_rejected [of "js ''quantity''" 3 ?f1 utc_datetime one_item_client "js ''1''"]
          malformed_decimal_rejected [of "js ''price''" 2 ?f2 utc_datetime one_item_client "js ''1''"]
          h1 h2
    by simp
qed

section \<open>Normalisation on Create\<close>

text \<open>
  C5: for every payload the Create schema accepts, the item passed to persistence
  has as its name the input name trimmed of surrounding white space, and has
  \<^verbatim>\<open>usedQuantity\<close> equal to the string \<^verbatim>\<open>0.0\<close> whenever the input omits
  \<^verbatim>\<open>usedQuantity\<close>.
\<close>

theorem create_trims_name_and_defaults_usedQuantity:
  "createItemSchema isDatetime form = Inr data \<longrightarrow>
     (\<exists>s d. get form (js ''name'') = JStr s
        \<and> fst (post_route isDatetime prisma form) = [ItemCreate d]
        \<and> get d (js ''name'') = JStr (trim s)
        \<and> (get form (js ''usedQuantity'') = JUndefined \<longrightarrow> get d (js ''usedQuantity'') = JStr (js ''0.0'')))"
proof
  assume valid: "createItemSchema isDatetime form = Inr data"
  from create_data_valid [OF valid] obtain s d
    where s: "get form (js ''name'') = JStr s" and d: "create_data data = Returns d"
      and name: "get d (js ''name'') = JStr (trim s)"
      and used: "get d (js ''usedQuantity'') = get data (js ''usedQuantity'')"
    by blast
  have "get data (js ''usedQuantity'') = JStr (js ''0.0'')" if "get form (js ''usedQuantity'') = JUndefined"
    using create_field [OF valid in_shape(6)] that by (simp add: used_quantity_default)
  with s name used post_route_calls [OF valid d]
  show "\<exists>s d. get form (js ''name'') = JStr s
        \<and> fst (post_route isDatetime prisma form) = [ItemCreate d]
        \<and> get d (js ''name'') = JStr (trim s)
        \<and> (get form (js ''usedQuantity'') = JUndefined \<longrightarrow> get d (js ''usedQuantity'') = JStr (js ''0.0''))"
    by auto
qed

text \<open>The payload with the single field \<^verbatim>\<open>name\<close> set to \<^verbatim>\<open>" milk "\<close>.\<close>

theorem create_trims_name_and_defaults_usedQuantity_witness:
  "\<exists>d. fst (post_route utc_datetime one_item_client (JObj [(js ''name'', JStr (js '' milk ''))]))
          = [ItemCreate d]
      \<and> get d (js ''name'') = JStr (js ''milk'')
      \<and> get d (js ''usedQuantity'') = JStr (js ''0.0'')"
proof -
  let ?form = "JObj [(js ''name'', JStr (js '' milk ''))]"
  have v: "createItemSchema utc_datetime ?form
             = Inr (JObj [(js ''name'', JStr (js '' milk '')), (js ''usedQuantity'', JStr (js ''0.0''))])"
    by (simp add: schema_eval value_eval)
  have n: "get ?form (js ''name'') = JStr (js '' milk '')" and u: "get ?form (js ''usedQuantity'') = JUndefined"
    by (simp_all add: get_def)
  have t: "trim (js '' milk '') = js ''milk''"
    by (simp add: value_eval)
  from create_trims_name_and_defaults_usedQuantity [of utc_datetime ?form _ one_item_client] v n u t
  show ?thesis
    by auto
qed

section \<open>Records that are not found\<close>

text \<open>
  C6: on Update and on Delete with a valid id, the response is the 404 envelope with
  the not-found message exactly when the persistence call throws a known request
  error with the code \<^verbatim>\<open>P2025\<close>; no other outcome of the call gives it. So a Delete
  of an id for which persistence signals a missing record, as it does for an id
  already deleted, is answered with 404 and never with 200.
\<close>

theorem not_found_code_is_404:
  "\<not> (isNaN (Number idParam) \<or> le_zero (Number idParam)) \<longrightarrow>
     (snd (delete_handler prisma idParam) = Returns (error_envelope msg_not_found 404)
        \<longleftrightarrow> prisma (ItemDelete (Number idParam))
              = Throws (PrismaClientKnownRequestError (js ''P2025'')))
     \<and> (update_data data = Returns updateData \<longrightarrow>
          (snd (put_handler prisma idParam data) = Returns (error_envelope msg_not_found 404)
             \<longleftrightarrow> prisma (ItemUpdate (Number idParam) updateData)
                   = Throws (PrismaClientKnownRequestError (js ''P2025''))))"
proof (intro impI conjI)
  assume ok: "\<not> (isNaN (Number idParam) \<or> le_zero (Number idParam))"
  show "snd (delete_handler prisma idParam) = Returns (error_envelope msg_not_found 404)
        \<longleftrightarrow> prisma (ItemDelete (Number idParam))
              = Throws (PrismaClientKnownRequestError (js ''P2025''))"
  proof (cases "prisma (ItemDelete (Number idParam))")
    case (Returns x)
    then show ?thesis
      using ok by (simp add: delete_handler_def io_eval Let_def)
  next
    case (Throws e)
    then show ?thesis
      using ok by (cases e) (auto simp: delete_handler_def io_eval Let_def is_not_found_def)
  qed
  show "snd (put_handler prisma idParam data) = Returns (error_envelope msg_not_found 404)
             \<longleftrightarrow> prisma (ItemUpdate (Number idParam) updateData)
                   = Throws (PrismaClientKnownRequestError (js ''P2025''))"
    if u: "update_data data = Returns updateData"
  proof (cases "prisma (ItemUpdate (Number idParam) updateData)")
    case (Returns x)
    then show ?thesis
      using ok u by (simp add: put_handler_def io_eval Let_def)
  next
    case (Throws e)
    then show ?thesis
      using ok u by (cases e) (auto simp: put_handler_def io_eval Let_def is_not_found_def)
  qed
qed

text \<open>Delete and Update of the id \<^verbatim>\<open>2\<close>, which the sample client does not hold.\<close>

theorem not_found_code_is_404_witness:
  "delete_handler one_item_client (js ''2'')
     = ([ItemDelete (Fin 2)], Returns (error_envelope msg_not_found 404))
   \<and> put_handler one_item_client (js ''2'') (JObj [(js ''price'', JStr (js ''9.99''))])
     = ([ItemUpdate (Fin 2) (JObj [(js ''price'', JStr (js ''9.99''))])],
        Returns (error_envelope msg_not_found 404))
   \<and> status_of (error_envelope msg_not_found 404) \<noteq> 200"
proof -
  let ?data = "JObj [(js ''price'', JStr (js ''9.99''))]"
  have i: "\<not> (isNaN (Number (js ''2'')) \<or> le_zero (Number (js ''2'')))"
    by (simp add: Number_2 isNaN_def le_zero_def)
  have u: "update_data ?data = Returns ?data"
    by (simp add: route_eval value_eval io_eval)
  have d: "one_item_client (ItemDelete (Number (js ''2'')))
             = Throws (PrismaClientKnownRequestError (js ''P2025''))"
    and p: "one_item_client (ItemUpdate (Number (js ''2'')) ?data)
             = Throws (PrismaClientKnownRequestError (js ''P2025''))"
    by (simp_all add: Number_2)
  have c1: "fst (delete_handler one_item_client (js ''2'')) = [ItemDelete (Fin 2)]"
    by (simp add: number_eval value_eval io_eval route_eval)
  have c2: "fst (put_handler one_item_client (js ''2'') ?data) = [ItemUpdate (Fin 2) ?data]"
    by (simp add: number_eval value_eval io_eval route_eval)
  from not_found_code_is_404 [of "js ''2''" one_item_client ?data ?data] i u d p
  have s1: "snd (delete_handler one_item_client (js ''2''))
              = Returns (error_envelope msg_not_found 404)"
    and s2: "snd (put_handler one_item_client (js ''2'') ?data)
              = Returns (error_envelope msg_not_found 404)"
    by blast+
  have "delete_handler one_item_client (js ''2'')
          = ([ItemDelete (Fin 2)], Returns (error_envelope msg_not_found 404))"
    using c1 s1 by (rule prod_eqI [of _ "(_, _)", simplified])
  moreover have "put_handler one_item_client (js ''2'') ?data
          = ([ItemUpdate (Fin 2) ?data], Returns (error_envelope msg_not_found 404))"
    using c2 s2 by (rule prod_eqI [of _ "(_, _)", simplified])
  moreover have "status_of (error_envelope msg_not_found 404) \<noteq> 200"
    by simp
  ultimately show ?thesis by blast
qed

section \<open>Every outcome is an envelope\<close>

text \<open>
  C7: for List, Create, Update and Delete and for every outcome of the persistence
  call, the handler returns an envelope and throws nothing: a persistence failure
  never passes the handler. When the persistence call fails, other than with the
  not-found code on Update and Delete, the response is the generic message of the
  operation with status 500, whatever the exception was. The Create and Update
  routes, validation included, return a reply for every payload.
\<close>

theorem every_outcome_is_an_envelope:
  "(\<exists>r. get_handler prisma = ([ItemFindMany], Returns r) \<and> is_envelope r
      \<and> (\<forall>e. prisma ItemFindMany = Throws e \<longrightarrow> r = error_envelope msg_list_failed 500))
   \<and> (\<exists>cs r. post_handler prisma data = (cs, Returns r) \<and> is_envelope r
      \<and> (\<forall>c e. c \<in> set cs \<and> prisma c = Throws e
            \<longrightarrow> r = error_envelope msg_create_failed 500))
   \<and> (updateItemSchema isDatetime form = Inr data \<longrightarrow>
        (\<exists>cs r. put_handler prisma idParam data = (cs, Returns r) \<and> is_envelope r
           \<and> (\<forall>c e. c \<in> set cs \<and> prisma c = Throws e \<and> \<not> is_not_found e
                 \<longrightarrow> r = error_envelope msg_update_failed 500)))
   \<and> (\<exists>cs r. delete_handler prisma idParam = (cs, Returns r) \<and> is_envelope r
      \<and> (\<forall>c e. c \<in> set cs \<and> prisma c = Throws e \<and> \<not> is_not_found e
            \<longrightarrow> r = error_envelope msg_delete_failed 500))
   \<and> (\<exists>rep. snd (post_route isDatetime prisma form) = Returns rep)
   \<and> (\<exists>rep. snd (put_route isDatetime prisma idParam form) = Returns rep)"
proof (intro conjI impI)
  show "\<exists>r. get_handler prisma = ([ItemFindMany], Returns r) \<and> is_envelope r
      \<and> (\<forall>e. prisma ItemFindMany = Throws e \<longrightarrow> r = error_envelope msg_list_failed 500)"
    by (rule get_handler_envelope)
  show "\<exists>cs r. post_handler prisma data = (cs, Returns r) \<and> is_envelope r
      \<and> (\<forall>c e. c \<in> set cs \<and> prisma c = Throws e
            \<longrightarrow> r = error_envelope msg_create_failed 500)"
    by (rule post_handler_envelope)
  show "\<exists>cs r. put_handler prisma idParam data = (cs, Returns r) \<and> is_envelope r
           \<and> (\<forall>c e. c \<in> set cs \<and> prisma c = Throws e \<and> \<not> is_not_found e
                 \<longrightarrow> r = error_envelope msg_update_failed 500)"
    if "updateItemSchema isDatetime form = Inr data"
  proof -
    from update_data_valid [OF that] obtain u where "update_data data = Returns u" ..
    then show ?thesis by (rule put_handler_envelope)
  qed
  show "\<exists>cs r. delete_handler prisma idParam = (cs, Returns r) \<and> is_envelope r
      \<and> (\<forall>c e. c \<in> set cs \<and> prisma c = Throws e \<and> \<not> is_not_found e
            \<longrightarrow> r = error_envelope msg_delete_failed 500)"
    by (rule delete_handler_envelope)
  show "\<exists>rep. snd (post_route isDatetime prisma form) = Returns rep"
    unfolding post_route_def
  proof (rule zValidator_returns)
    fix d
    from post_handler_envelope [of prisma d]
    show "\<exists>cs r. post_handler prisma d = (cs, Returns r)" by blast
  qed
  show "\<exists>rep. snd (put_route isDatetime prisma idParam form) = Returns rep"
    unfolding put_route_def
  proof (rule zValidator_returns)
    fix d assume "updateItemSchema isDatetime form = Inr d"
    from update_data_valid [OF this] obtain u where "update_data d = Returns u" ..
    from put_handler_envelope [OF this, of prisma idParam]
    show "\<exists>cs r. put_handler prisma idParam d = (cs, Returns r)" by blast
  qed
qed

text \<open>
  A persistence client whose every call throws an exception other than a known
  request error: each operation answers with its generic message and status 500.
\<close>

theorem every_outcome_is_an_envelope_witness:
  "snd (get_handler failing_client) = Returns (error_envelope msg_list_failed 500)
   \<and> snd (post_handler failing_client (JObj [(js ''name'', JStr (js ''milk''))]))
       = Returns (error_envelope msg_create_failed 500)
   \<and> snd (put_handler failing_client (js ''1'')
            (JObj [(js ''usedQuantity'', JStr (js ''0.0'')), (js ''price'', JStr (js ''9.99''))]))
       = Returns (error_envelope msg_update_failed 500)
   \<and> snd (delete_handler failing_client (js ''1''))
       = Returns (error_envelope msg_delete_failed 500)"
proof -
  let ?data = "JObj [(js ''name'', JStr (js ''milk''))]"
  let ?form = "JObj [(js ''price'', JStr (js ''9.99''))]"
  let ?valid = "JObj [(js ''usedQuantity'', JStr (js ''0.0'')), (js ''price'', JStr (js ''9.99''))]"
  let ?e = "OtherError (JStr (js ''connection lost''))"
  note t = every_outcome_is_an_envelope [of failing_client ?data utc_datetime ?form "js ''1''"]
  note u = every_outcome_is_an_envelope [of failing_client ?valid utc_datetime ?form "js ''1''"]
  have v: "updateItemSchema utc_datetime ?form = Inr ?valid"
    by (simp add: schema_eval value_eval)
  have nf: "\<not> is_not_found ?e"
    by (simp add: is_not_found_def)
  have fails: "failing_client c = Throws ?e" for c
    by (simp add: failing_client_def)
  have c2: "fst (post_handler failing_client ?data) \<noteq> []"
    by (simp add: value_eval io_eval route_eval failing_client_def)
  have c3: "fst (put_handler failing_client (js ''1'') ?valid) \<noteq> []"
    by (simp add: number_eval value_eval io_eval route_eval failing_client_def)
  have c4: "fst (delete_handler failing_client (js ''1'')) \<noteq> []"
    by (simp add: number_eval value_eval io_eval route_eval failing_client_def)
  from t [THEN conjunct1] obtain r1
    where "get_handler failing_client = ([ItemFindMany], Returns r1)"
      and "\<forall>e. failing_client ItemFindMany = Throws e \<longrightarrow> r1 = error_envelope msg_list_failed 500"
    by (elim exE conjE)
  then have g1: "snd (get_handler failing_client) = Returns (error_envelope msg_list_failed 500)"
    using fails [of ItemFindMany] by simp
  from t [THEN conjunct2, THEN conjunct1] obtain cs2 r2
    where p: "post_handler failing_client ?data = (cs2, Returns r2)"
      and "\<forall>c e. c \<in> set cs2 \<and> failing_client c = Throws e
             \<longrightarrow> r2 = error_envelope msg_create_failed 500"
    by (elim exE conjE)
  moreover from p c2 obtain c where "c \<in> set cs2"
    by (cases cs2) auto
  ultimately have g2: "snd (post_handler failing_client ?data)
                         = Returns (error_envelope msg_create_failed 500)"
    using fails by simp
  from u [THEN conjunct2, THEN conjunct2, THEN conjunct1, THEN mp, OF v] obtain cs3 r3
    where p: "put_handler failing_client (js ''1'') ?valid = (cs3, Returns r3)"
      and "\<forall>c e. c \<in> set cs3 \<and> failing_client c = Throws e \<and> \<not> is_not_found e
             \<longrightarrow> r3 = error_envelope msg_update_failed 500"
    by (elim exE conjE)
  moreover from p c3 obtain c where "c \<in> set cs3"
    by (cases cs3) auto
  ultimately have g3: "snd (put_handler failing_client (js ''1'') ?valid)
                         = Returns (error_envelope msg_update_failed 500)"
    using fails nf by simp
  from t [THEN conjunct2, THEN conjunct2, THEN conjunct2, THEN conjunct1] obtain cs4 r4
    where p: "delete_handler failing_client (js ''1'') = (cs4, Returns r4)"
      and "\<forall>c e. c \<in> set cs4 \<and> failing_client c = Throws e \<and> \<not> is_not_found e
             \<longrightarrow> r4 = error_envelope msg_delete_failed 500"
    by (elim exE conjE)
  moreover from p c4 obtain c where "c \<in> set cs4"
    by (cases cs4) auto
  ultimately have g4: "snd (delete_handler failing_client (js ''1''))
                         = Returns (error_envelope msg_delete_failed 500)"
    using fails nf by simp
  from g1 g2 g3 g4 show ?thesis
    by (intro conjI)
qed

section \<open>The response envelope\<close>




section \<open>The stored name\<close>

text \<open>
  C9 says that the name written to storage is always a non-empty trimmed string.
  The schema tests the length of the name before the handler trims it, so a name
  of three spaces passes validation: Create passes the empty name to persistence,
  and Update writes null as the name.
\<close>

theorem blank_name_is_stored:
  "fst (post_route utc_datetime one_item_client (JObj [(js ''name'', JStr (js ''   ''))]))
     = [ItemCreate (JObj
          [(js ''name'', JStr []), (js ''source'', JNull), (js ''quantity'', JNull), (js ''unit'', JNull),
           (js ''usedQuantity'', JStr (js ''0.0'')), (js ''productionDate'', JNull),
           (js ''expiryDate'', JNull), (js ''locationId'', JUndefined), (js ''price'', JNull),
           (js ''extraInfo'', JUndefined)])]
   \<and> fst (put_route utc_datetime one_item_client (js ''1'') (JObj [(js ''name'', JStr (js ''   ''))]))
     = [ItemUpdate (Fin 1) (JObj [(js ''name'', JNull), (js ''usedQuantity'', JStr (js ''0.0''))])]"
  by (simp add: number_eval value_eval io_eval schema_eval route_eval)

section \<open>An explicit null as locationId\<close>

text \<open>
  C10: both schemas accept \<^verbatim>\<open>locationId: null\<close>. On Create the null is turned into
  \<^verbatim>\<open>undefined\<close>: the item passed to persistence has \<^verbatim>\<open>locationId\<close> unset, and the
  create data is the same as for a payload that omits the field. On Update the key
  is in the update set and its value is null.
\<close>

theorem null_locationId_create_and_update:
  "(createItemSchema isDatetime form = Inr data \<and> get form (js ''locationId'') = JNull \<longrightarrow>
      (\<exists>d. fst (post_route isDatetime prisma form) = [ItemCreate d]
         \<and> get d (js ''locationId'') = JUndefined))
   \<and> (get data1 (js ''locationId'') = JNull \<and> get data2 (js ''locationId'') = JUndefined
        \<and> (\<forall>k. k \<noteq> js ''locationId'' \<longrightarrow> get data2 k = get data1 k)
        \<longrightarrow> create_data data2 = create_data data1)
   \<and> (updateItemSchema isDatetime form = Inr data \<and> get form (js ''locationId'') = JNull
        \<and> \<not> (isNaN (Number idParam) \<or> le_zero (Number idParam)) \<longrightarrow>
      (\<exists>u. fst (put_route isDatetime prisma idParam form) = [ItemUpdate (Number idParam) u]
         \<and> js ''locationId'' \<in> keys_of u \<and> get u (js ''locationId'') = JNull))"
proof (intro conjI impI)
  assume a: "createItemSchema isDatetime form = Inr data \<and> get form (js ''locationId'') = JNull"
  then have valid: "createItemSchema isDatetime form = Inr data"
    and null: "get form (js ''locationId'') = JNull"
    by simp_all
  from create_field [OF valid in_shape(7)] null have "get data (js ''locationId'') = JNull"
    by (simp add: nullable_def)
  moreover from create_data_valid [OF valid] obtain d
    where d: "create_data data = Returns d"
      and "get d (js ''locationId'') = nullish (get data (js ''locationId'')) JUndefined"
    by blast
  ultimately have "get d (js ''locationId'') = JUndefined"
    by (simp add: nullish_def)
  with post_route_calls [OF valid d, of prisma]
  show "\<exists>d. fst (post_route isDatetime prisma form) = [ItemCreate d]
          \<and> get d (js ''locationId'') = JUndefined"
    by blast
next
  assume "get data1 (js ''locationId'') = JNull \<and> get data2 (js ''locationId'') = JUndefined
        \<and> (\<forall>k. k \<noteq> js ''locationId'' \<longrightarrow> get data2 k = get data1 k)"
  then show "create_data data2 = create_data data1"
    by (intro create_data_cong) (simp_all add: nullish_def)
next
  assume a: "updateItemSchema isDatetime form = Inr data \<and> get form (js ''locationId'') = JNull
        \<and> \<not> (isNaN (Number idParam) \<or> le_zero (Number idParam))"
  then have valid: "updateItemSchema isDatetime form = Inr data"
    and null: "get form (js ''locationId'') = JNull"
    and ok: "\<not> (isNaN (Number idParam) \<or> le_zero (Number idParam))"
    by simp_all
  from update_field [OF valid in_shape(7)] null have dn: "get data (js ''locationId'') = JNull"
    by (simp add: optional_def nullable_def)
  from update_data_valid [OF valid] obtain u where u: "update_data data = Returns u" ..
  have "or_null (get data (js ''locationId'')) = Returns (get u (js ''locationId''))"
    using u dn
    by (intro assign_lines_get [OF _ update_lines_distinct in_update_lines])
       (simp_all add: update_data_def)
  then have 1: "get u (js ''locationId'') = JNull"
    using dn by (simp add: or_null_def nullish_def)
  have 2: "js ''locationId'' \<in> keys_of u"
    using update_data_keys [OF u] dn by simp
  from put_route_calls [OF valid u ok, of prisma] 1 2
  show "\<exists>u. fst (put_route isDatetime prisma idParam form) = [ItemUpdate (Number idParam) u]
         \<and> js ''locationId'' \<in> keys_of u \<and> get u (js ''locationId'') = JNull"
    by blast
qed

text \<open>The payload \<^verbatim>\<open>{name: "milk", locationId: null}\<close> on Create and on Update of item 1.\<close>

theorem null_locationId_create_and_update_witness:
  "(\<exists>d. fst (post_route utc_datetime one_item_client
            (JObj [(js ''name'', JStr (js ''milk'')), (js ''locationId'', JNull)])) = [ItemCreate d]
        \<and> get d (js ''locationId'') = JUndefined)
   \<and> (\<exists>u. fst (put_route utc_datetime one_item_client (js ''1'')
            (JObj [(js ''name'', JStr (js ''milk'')), (js ''locationId'', JNull)])) = [ItemUpdate (Fin 1) u]
        \<and> js ''locationId'' \<in> keys_of u \<and> get u (js ''locationId'') = JNull)"
proof -
  let ?form = "JObj [(js ''name'', JStr (js ''milk'')), (js ''locationId'', JNull)]"
  let ?cdata = "JObj [(js ''name'', JStr (js ''milk'')), (js ''usedQuantity'', JStr (js ''0.0'')),
                      (js ''locationId'', JNull)]"
  have v1: "createItemSchema utc_datetime ?form = Inr ?cdata"
    by (simp add: schema_eval value_eval)
  have v2: "updateItemSchema utc_datetime ?form = Inr ?cdata"
    by (simp add: schema_eval value_eval)
  have n: "get ?form (js ''locationId'') = JNull"
    by (simp add: get_def)
  have i: "\<not> (isNaN (Number (js ''1'')) \<or> le_zero (Number (js ''1'')))"
    by (simp add: Number_1 isNaN_def le_zero_def)
  have h1: "createItemSchema utc_datetime ?form = Inr ?cdata \<and> get ?form (js ''locationId'') = JNull"
    using v1 n by (rule conjI)
  have h2: "updateItemSchema utc_datetime ?form = Inr ?cdata \<and> get ?form (js ''locationId'') = JNull
            \<and> \<not> (isNaN (Number (js ''1'')) \<or> le_zero (Number (js ''1'')))"
    using v2 n i by (intro conjI)
  note t1 = null_locationId_create_and_update
              [of utc_datetime ?form ?cdata one_item_client _ _ "js ''1''", THEN conjunct1, THEN mp, OF h1]
  note t2 = null_locationId_create_and_update
              [of utc_datetime ?form ?cdata one_item_client _ _ "js ''1''",
               THEN conjunct2, THEN conjunct2, THEN mp, OF h2]
  show ?thesis
    using t1 t2 [unfolded Number_1] by (rule conjI)
qed

end
